theory Spec2Isabelle
  imports Main "HOL-Library.Word"
begin

unbundle bit_operations_syntax

section \<open>The platform the driver runs on\<close>

text \<open>
  The driver calls into the PCI core, the slab allocator and the SJA1000 framework.
  Those calls are modelled by their effect on the resources of one PCI device: the
  enable state, the reserved BARs, the I/O mappings, the card record behind the
  driver-data pointer, and the CAN network devices. Every call is logged in
  \<open>calls\<close>, in program order. A teardown call on something that is not held (a second
  free, an unregister of a device that is not registered, ...) leaves the resources as
  they are and is logged in \<open>faults\<close>; so are a store beyond an array and a read
  through a pointer that was never set.

  Addresses are integers (\<open>0\<close> is \<open>NULL\<close>), a \<open>struct net_device *\<close> is a natural
  number (\<open>0\<close> is \<open>NULL\<close>). What the platform answers to a call that can fail is read
  from an environment \<open>env\<close>.
\<close>

type_synonym addr = int
type_synonym handle = nat
type_synonym u8 = "8 word"

datatype event =
    PciEnableDevice int
  | PciDisableDevice
  | PciDisableMsi
  | PciSetDrvdata
  | PciRequestRegion nat int
  | PciReleaseRegion nat
  | PciIomap nat addr
  | PciIounmap addr
  | Kzalloc bool
  | Kfree
  | AllocDev handle
  | RegisterDev handle int
  | UnregisterDev handle
  | FreeDev handle

datatype fault =
    DisableNotEnabled
  | ReleaseNotReserved nat
  | IounmapNotMapped addr
  | KfreeNotAllocated
  | CardUseAfterFree
  | UnregisterNotRegistered handle
  | FreeNotAllocated handle
  | SlotOutOfBounds nat
  | UnsetPointerRead

datatype read_fn = Adv_read_reg | Adv_read_reg_io
datatype write_fn = Adv_write_reg | Adv_write_reg_io

text \<open>
  \<open>struct sja1000_priv\<close> and the fields of \<open>struct net_device\<close> that the probe
  writes. The output-control and clock-divider bytes are macros of the framework's
  header and are left out.
\<close>

record sja1000_priv =
  reg_base :: addr
  read_reg :: "read_fn option"
  write_reg :: "write_fn option"
  irq_shared :: bool
  clock_freq :: nat

record net_device =
  irq :: nat
  dev_id :: nat
  priv :: sja1000_priv

definition zero_dev :: net_device where
  "zero_dev = \<lparr>irq = 0, dev_id = 0,
     priv = \<lparr>reg_base = 0, read_reg = None, write_reg = None, irq_shared = False,
       clock_freq = 0\<rparr>\<rparr>"

record pci_dev =
  device :: "16 word"
  pdev_irq :: nat

record env =
  enable_res :: int
  kzalloc_ok :: bool
  request_res :: "nat \<Rightarrow> int"
  iomap_res :: "nat \<Rightarrow> addr"
  alloc_res :: "nat \<Rightarrow> handle"
  register_res :: "handle \<Rightarrow> int"

record 'c world =
  pci_enabled :: bool
  card_alloc :: bool
  drvdata_set :: bool
  card :: 'c
  regions :: "nat list"
  iomaps :: "addr list"
  netdevs :: "handle list"
  registered :: "handle list"
  devmem :: "handle \<Rightarrow> net_device"
  calls :: "event list"
  faults :: "fault list"

definition world0 :: "'c \<Rightarrow> 'c world" where
  "world0 c = \<lparr>pci_enabled = False, card_alloc = False, drvdata_set = False, card = c,
     regions = [], iomaps = [], netdevs = [], registered = [],
     devmem = (\<lambda>_. zero_dev), calls = [], faults = []\<rparr>"

definition log_call :: "event \<Rightarrow> 'c world \<Rightarrow> 'c world" where
  "log_call e w = w\<lparr>calls := calls w @ [e]\<rparr>"

definition log_fault :: "fault \<Rightarrow> 'c world \<Rightarrow> 'c world" where
  "log_fault f w = w\<lparr>faults := faults w @ [f]\<rparr>"

text \<open>\<open>pci_enable_device\<close>: 0 on success, a negative errno on failure.\<close>

definition pci_enable_device :: "env \<Rightarrow> 'c world \<Rightarrow> int \<times> 'c world" where
  "pci_enable_device e w =
     (let r = enable_res e;
          w1 = log_call (PciEnableDevice r) w
      in (r, if r < 0 then w1 else w1\<lparr>pci_enabled := True\<rparr>))"

definition pci_disable_device :: "'c world \<Rightarrow> 'c world" where
  "pci_disable_device w =
     (let w1 = log_call PciDisableDevice w
      in if pci_enabled w1 then w1\<lparr>pci_enabled := False\<rparr>
         else log_fault DisableNotEnabled w1)"

text \<open>\<open>pci_disable_msi\<close> returns at once when MSI was never enabled.\<close>

definition pci_disable_msi :: "'c world \<Rightarrow> 'c world" where
  "pci_disable_msi w = log_call PciDisableMsi w"

text \<open>
  \<open>kzalloc(sizeof(*card), GFP_KERNEL)\<close>: the zeroed record \<open>z\<close> on success.
\<close>

definition kzalloc :: "env \<Rightarrow> 'c \<Rightarrow> 'c world \<Rightarrow> bool \<times> 'c world" where
  "kzalloc e z w =
     (let ok = kzalloc_ok e;
          w1 = log_call (Kzalloc ok) w
      in (ok, if ok then w1\<lparr>card_alloc := True, card := z\<rparr> else w1))"

definition kfree :: "'c world \<Rightarrow> 'c world" where
  "kfree w =
     (let w1 = log_call Kfree w
      in if card_alloc w1 then w1\<lparr>card_alloc := False\<rparr>
         else log_fault KfreeNotAllocated w1)"

definition pci_set_drvdata :: "'c world \<Rightarrow> 'c world" where
  "pci_set_drvdata w = (log_call PciSetDrvdata w)\<lparr>drvdata_set := True\<rparr>"

text \<open>
  \<open>pci_get_drvdata\<close> hands back the pointer stored by \<open>pci_set_drvdata\<close>; reading the
  record behind it after \<open>kfree\<close> is a use after free, which still sees the old bytes.
\<close>

definition pci_get_drvdata :: "'c world \<Rightarrow> 'c \<times> 'c world" where
  "pci_get_drvdata w =
     (card w, if card_alloc w then w else log_fault CardUseAfterFree w)"

definition pci_request_region :: "env \<Rightarrow> nat \<Rightarrow> 'c world \<Rightarrow> int \<times> 'c world" where
  "pci_request_region e bar w =
     (let err = request_res e bar;
          w1 = log_call (PciRequestRegion bar err) w
      in (err, if err = 0 then w1\<lparr>regions := regions w1 @ [bar]\<rparr> else w1))"

definition pci_release_region :: "nat \<Rightarrow> 'c world \<Rightarrow> 'c world" where
  "pci_release_region bar w =
     (let w1 = log_call (PciReleaseRegion bar) w
      in if bar \<in> set (regions w1) then w1\<lparr>regions := remove1 bar (regions w1)\<rparr>
         else log_fault (ReleaseNotReserved bar) w1)"

definition pci_iomap :: "env \<Rightarrow> nat \<Rightarrow> 'c world \<Rightarrow> addr \<times> 'c world" where
  "pci_iomap e bar w =
     (let a = iomap_res e bar;
          w1 = log_call (PciIomap bar a) w
      in (a, if a \<noteq> 0 then w1\<lparr>iomaps := iomaps w1 @ [a]\<rparr> else w1))"

definition pci_iounmap :: "addr \<Rightarrow> 'c world \<Rightarrow> 'c world" where
  "pci_iounmap a w =
     (let w1 = log_call (PciIounmap a) w
      in if a \<in> set (iomaps w1) then w1\<lparr>iomaps := remove1 a (iomaps w1)\<rparr>
         else log_fault (IounmapNotMapped a) w1)"

text \<open>
  \<open>alloc_sja1000dev(0)\<close>: the \<open>k\<close>-th allocation of an attach returns
  \<open>alloc_res e k\<close>, a zeroed device or \<open>NULL\<close>.
\<close>

definition alloc_sja1000dev :: "env \<Rightarrow> nat \<Rightarrow> 'c world \<Rightarrow> handle \<times> 'c world" where
  "alloc_sja1000dev e k w =
     (let h = alloc_res e k;
          w1 = log_call (AllocDev h) w
      in (h, if h \<noteq> 0
             then w1\<lparr>netdevs := netdevs w1 @ [h], devmem := (devmem w1)(h := zero_dev)\<rparr>
             else w1))"

definition free_sja1000dev :: "handle \<Rightarrow> 'c world \<Rightarrow> 'c world" where
  "free_sja1000dev h w =
     (let w1 = log_call (FreeDev h) w
      in if h \<in> set (netdevs w1) then w1\<lparr>netdevs := remove1 h (netdevs w1)\<rparr>
         else log_fault (FreeNotAllocated h) w1)"

definition register_sja1000dev :: "env \<Rightarrow> handle \<Rightarrow> 'c world \<Rightarrow> int \<times> 'c world" where
  "register_sja1000dev e h w =
     (let err = register_res e h;
          w1 = log_call (RegisterDev h err) w
      in (err, if err = 0 then w1\<lparr>registered := registered w1 @ [h]\<rparr> else w1))"

definition unregister_sja1000dev :: "handle \<Rightarrow> 'c world \<Rightarrow> 'c world" where
  "unregister_sja1000dev h w =
     (let w1 = log_call (UnregisterDev h) w
      in if h \<in> set (registered w1) then w1\<lparr>registered := remove1 h (registered w1)\<rparr>
         else log_fault (UnregisterNotRegistered h) w1)"

definition ENODEV :: int where "ENODEV = 19"
definition ENOMEM :: int where "ENOMEM = 12"

section \<open>Register access (\<open>readb\<close>, \<open>writeb\<close>, \<open>inb\<close>, \<open>outb\<close>)\<close>

text \<open>
  The register file behind a mapping is a function from byte addresses to bytes.
  A read returns the byte together with the unchanged file.
\<close>

type_synonym iomem = "addr \<Rightarrow> u8"

definition readb :: "addr \<Rightarrow> iomem \<Rightarrow> u8 \<times> iomem" where
  "readb a m = (m a, m)"

definition writeb :: "u8 \<Rightarrow> addr \<Rightarrow> iomem \<Rightarrow> iomem" where
  "writeb v a m = m(a := v)"

text \<open>
  \<open>adv_read_reg\<close> and \<open>adv_write_reg\<close>. The parameter \<open>port\<close> is a C \<open>int\<close>: the
  product \<open>4 * port\<close> is computed in 32 bits and read as a signed offset.
\<close>

definition adv_read_reg :: "sja1000_priv \<Rightarrow> 32 word \<Rightarrow> iomem \<Rightarrow> u8 \<times> iomem" where
  "adv_read_reg p port m = readb (reg_base p + sint (4 * port)) m"

definition adv_write_reg :: "sja1000_priv \<Rightarrow> 32 word \<Rightarrow> u8 \<Rightarrow> iomem \<Rightarrow> iomem" where
  "adv_write_reg p port v m = writeb v (reg_base p + sint (4 * port)) m"

section \<open>The driver of \<open>advantech_can_pci.c\<close>\<close>

record adv_pci_card =
  can_addr :: addr
  net_dev :: "handle list"

definition card0 :: adv_pci_card where
  "card0 = \<lparr>can_addr = 0, net_dev = [0, 0, 0, 0]\<rparr>"

definition ADV_PCI_CAN_CLOCK :: nat where
  "ADV_PCI_CAN_CLOCK = 16000000 div 2"

definition adv_pci_tbl :: "16 word list" where
  "adv_pci_tbl = [0xc201, 0xc202, 0xc204, 0xc301, 0xc302, 0xc304]"

text \<open>The loop of \<open>adv_remove\<close> over the four slots of \<open>card->net_dev\<close>.\<close>

fun remove_devs :: "handle list \<Rightarrow> 'c world \<Rightarrow> 'c world" where
  "remove_devs [] w = w"
| "remove_devs (dev # devs) w =
     remove_devs devs
       (if dev \<noteq> 0 then free_sja1000dev dev (unregister_sja1000dev dev w) else w)"

definition adv_remove :: "adv_pci_card world \<Rightarrow> adv_pci_card world" where
  "adv_remove w =
     (case pci_get_drvdata w of (c, w0) \<Rightarrow>
        kfree (pci_release_region 0 (pci_disable_device
          (pci_iounmap (can_addr c) (pci_disable_msi (remove_devs (net_dev c) w0))))))"

text \<open>
  The body of the port loop of \<open>adv_probe\<close> from \<open>card->net_dev[i] = dev\<close> to
  \<open>dev->dev_id = i\<close>. A store to a slot beyond the array is logged as a fault.
\<close>

definition setup_dev :: "pci_dev \<Rightarrow> nat \<Rightarrow> handle \<Rightarrow> adv_pci_card world \<Rightarrow> adv_pci_card world" where
  "setup_dev pdev i dev w =
     (let c = card w;
          w1 = (if i < length (net_dev c)
                then w\<lparr>card := c\<lparr>net_dev := (net_dev c)[i := dev]\<rparr>\<rparr>
                else log_fault (SlotOutOfBounds i) w);
          d = devmem w1 dev
      in w1\<lparr>devmem := (devmem w1)(dev := d\<lparr>irq := pdev_irq pdev, dev_id := i,
            priv := (priv d)\<lparr>reg_base := can_addr c + 0x400 * int i,
              read_reg := Some Adv_read_reg, write_reg := Some Adv_write_reg,
              irq_shared := True, clock_freq := ADV_PCI_CAN_CLOCK\<rparr>\<rparr>)\<rparr>)"

text \<open>
  The port loop, over the values of \<open>i\<close> still to run. \<open>Some err\<close> is the jump to
  \<open>failure_cleanup\<close> with that \<open>err\<close>, \<open>None\<close> is the normal end of the loop.
\<close>

fun probe_ports :: "env \<Rightarrow> pci_dev \<Rightarrow> nat list \<Rightarrow> adv_pci_card world \<Rightarrow> int option \<times> adv_pci_card world" where
  "probe_ports e pdev [] w = (None, w)"
| "probe_ports e pdev (i # is) w =
     (case alloc_sja1000dev e i w of (dev, w1) \<Rightarrow>
        (if dev = 0 then (Some (- ENOMEM), w1)
         else (case register_sja1000dev e dev (setup_dev pdev i dev w1) of (err, w2) \<Rightarrow>
           (if err \<noteq> 0 then (Some err, free_sja1000dev dev w2)
            else probe_ports e pdev is w2))))"

text \<open>
  \<open>adv_probe\<close>, in three stages: \<open>adv_probe\<close> itself is the function up to
  \<open>pci_set_drvdata\<close>, \<open>probe_map\<close> is the reservation and mapping of BAR 0, and
  \<open>probe_loop\<close> is the port loop with the return that follows it. The label
  \<open>failure_cleanup\<close> calls \<open>adv_remove\<close> and returns \<open>err\<close>. The number of ports
  is \<open>pdev->device & 0xf\<close>.
\<close>

definition probe_loop :: "env \<Rightarrow> pci_dev \<Rightarrow> adv_pci_card world \<Rightarrow> int \<times> adv_pci_card world" where
  "probe_loop e pdev w =
     (case probe_ports e pdev [0..<unat (device pdev AND 0xf)] w of
        (Some err, w1) \<Rightarrow> (err, adv_remove w1)
      | (None, w1) \<Rightarrow> (0, w1))"

definition probe_map :: "env \<Rightarrow> pci_dev \<Rightarrow> adv_pci_card world \<Rightarrow> int \<times> adv_pci_card world" where
  "probe_map e pdev w =
     (case pci_request_region e 0 w of (err, w1) \<Rightarrow>
        (if err \<noteq> 0 then (err, adv_remove w1)
         else (case pci_iomap e 0 w1 of (a, w2) \<Rightarrow>
           (let w3 = w2\<lparr>card := (card w2)\<lparr>can_addr := a\<rparr>\<rparr>
            in if a = 0 then (- ENOMEM, adv_remove w3)
               else probe_loop e pdev w3))))"

definition adv_probe :: "env \<Rightarrow> pci_dev \<Rightarrow> adv_pci_card world \<Rightarrow> int \<times> adv_pci_card world" where
  "adv_probe e pdev w =
     (case pci_enable_device e w of (r, w1) \<Rightarrow>
        (if r < 0 then (- ENODEV, w1)
         else (case kzalloc e card0 w1 of (ok, w2) \<Rightarrow>
           (if \<not> ok then (- ENOMEM, pci_disable_device w2)
            else probe_map e pdev (pci_set_drvdata w2)))))"

section \<open>The driver of \<open>drivers/net/can/sja1000/advantech_can_pci.c\<close>\<close>

text \<open>
  The second file generalises the driver to more cards: port-mapped cards, and
  memory-mapped cards with a stride of \<open>0x100\<close>. It is unfinished: \<open>adv_alloc_io\<close> is
  defined twice and uses \<open>i\<close> and \<open>pdev\<close> without declaring them, the macro
  \<open>PORTS_MASK\<close> is not defined, and \<open>adv_probe\<close> closes one brace too many. The
  model reads \<open>i\<close> as the loop counter and \<open>pdev\<close> as the device being probed, and
  takes \<open>PORTS_MASK\<close> as a parameter. Where one of the file's names clashes with a name
  of the first file, the name carries the suffix \<open>2\<close> here.

  In \<open>adv_probe\<close> the local \<open>struct card_data *card_data\<close> hides the table
  \<open>card_data[]\<close> and is never set before it is used: the assignment
  \<open>card_data = card->card_data = &card_data[ent->driver_data]\<close> indexes the local, not
  the table. Every later \<open>card_data->...\<close> of \<open>adv_probe\<close> reads through an address
  that derives from the unset value. What such a read finds is not fixed by the program
  and is a parameter of the model, \<open>stray\<close>: \<open>stray k\<close> is the record found at index
  \<open>k\<close>, or \<open>None\<close> when the address cannot be read. The memory behind the pointer is
  taken not to change during the call.
\<close>

datatype board_id =
    pci_1680 | mic_3680 | uno_2052 | eamb_ph07
  | c001 | c002 | c004 | c101 | c102 | c104
  | c201 | c202 | c204 | c301 | c302 | c304

record card_data =
  name :: string
  ports :: nat
  iolength :: nat
  port_space :: nat

text \<open>
  The table \<open>card_data[]\<close>. An entry written \<open>{ name, n, .port_space = 1 }\<close> leaves
  \<open>iolength\<close> zero; one written \<open>{ name, n, len }\<close> leaves \<open>port_space\<close> zero.
\<close>

fun card_data_tbl :: "board_id \<Rightarrow> card_data" where
  "card_data_tbl pci_1680 = \<lparr>name = ''PCI-1680'', ports = 2, iolength = 0, port_space = 1\<rparr>"
| "card_data_tbl mic_3680 = \<lparr>name = ''MIC-3680'', ports = 2, iolength = 0, port_space = 1\<rparr>"
| "card_data_tbl uno_2052 = \<lparr>name = ''UNO-2052(E)'', ports = 2, iolength = 0, port_space = 1\<rparr>"
| "card_data_tbl eamb_ph07 = \<lparr>name = ''EAMB-PH07'', ports = 1, iolength = 0, port_space = 1\<rparr>"
| "card_data_tbl c001 = \<lparr>name = ''C001 CAN card (1 PORT)'', ports = 1, iolength = 0x100, port_space = 0\<rparr>"
| "card_data_tbl c002 = \<lparr>name = ''C002 CAN card (2 PORT)'', ports = 2, iolength = 0x100, port_space = 0\<rparr>"
| "card_data_tbl c004 = \<lparr>name = ''C004 CAN card (4 PORT)'', ports = 4, iolength = 0x100, port_space = 0\<rparr>"
| "card_data_tbl c101 = \<lparr>name = ''C101 CAN card (1 PORT,support CANopen)'', ports = 1, iolength = 0x100, port_space = 0\<rparr>"
| "card_data_tbl c102 = \<lparr>name = ''C102 CAN card (2 PORT,support CANopen)'', ports = 2, iolength = 0x100, port_space = 0\<rparr>"
| "card_data_tbl c104 = \<lparr>name = ''C104 CAN card (4 PORT,support CANopen)'', ports = 4, iolength = 0x100, port_space = 0\<rparr>"
| "card_data_tbl c201 = \<lparr>name = ''C201 CAN card (1 PORT)'', ports = 1, iolength = 0x400, port_space = 0\<rparr>"
| "card_data_tbl c202 = \<lparr>name = ''C202 CAN card (2 PORT)'', ports = 2, iolength = 0x400, port_space = 0\<rparr>"
| "card_data_tbl c204 = \<lparr>name = ''C204 CAN card (4 PORT)'', ports = 4, iolength = 0x400, port_space = 0\<rparr>"
| "card_data_tbl c301 = \<lparr>name = ''C301 CAN card (1 PORT,support CANopen)'', ports = 1, iolength = 0x400, port_space = 0\<rparr>"
| "card_data_tbl c302 = \<lparr>name = ''C302, MIOe-3680 (2 PORT,support CANopen)'', ports = 2, iolength = 0x400, port_space = 0\<rparr>"
| "card_data_tbl c304 = \<lparr>name = ''C304 CAN card (4 PORT,support CANopen)'', ports = 4, iolength = 0x400, port_space = 0\<rparr>"

record pci_device_id =
  id_device :: "16 word"
  driver_data :: board_id



record adv_pci_card2 =
  card_data :: card_data
  bar_addr :: "addr list"
  net_dev2 :: "handle list"

definition card2_0 :: adv_pci_card2 where
  "card2_0 = \<lparr>card_data = \<lparr>name = [], ports = 0, iolength = 0, port_space = 0\<rparr>,
     bar_addr = [0, 0], net_dev2 = [0, 0, 0, 0]\<rparr>"

definition inb :: "addr \<Rightarrow> iomem \<Rightarrow> u8 \<times> iomem" where
  "inb a m = (m a, m)"

definition outb :: "u8 \<Rightarrow> addr \<Rightarrow> iomem \<Rightarrow> iomem" where
  "outb v a m = m(a := v)"

definition adv_read_reg_io :: "sja1000_priv \<Rightarrow> 32 word \<Rightarrow> iomem \<Rightarrow> u8 \<times> iomem" where
  "adv_read_reg_io p port m = inb (reg_base p + sint port) m"

definition adv_write_reg_io :: "sja1000_priv \<Rightarrow> 32 word \<Rightarrow> u8 \<Rightarrow> iomem \<Rightarrow> iomem" where
  "adv_write_reg_io p port v m = outb v (reg_base p + sint port) m"

text \<open>
  \<open>adv_alloc_io\<close> (the file defines it twice, with the same body, and never calls
  it). The loop over \<open>i\<close> breaks at the first \<open>err\<close> that is not zero, and the
  function returns the last \<open>err\<close>.
\<close>

fun alloc_io_loop :: "env \<Rightarrow> nat list \<Rightarrow> 'c world \<Rightarrow> int \<times> 'c world" where
  "alloc_io_loop e [] w = (0, w)"
| "alloc_io_loop e (i # is) w =
     (case pci_request_region e (2 + i) w of (err, w1) \<Rightarrow>
        (if err \<noteq> 0 then (err, w1) else alloc_io_loop e is w1))"

definition adv_alloc_io :: "env \<Rightarrow> adv_pci_card2 \<Rightarrow> 'c world \<Rightarrow> int \<times> 'c world" where
  "adv_alloc_io e c w = alloc_io_loop e [0..<ports (card_data c)] w"

text \<open>The loop of \<open>adv_remove\<close> over \<open>card->bar_addr\<close>.\<close>

fun unmap_bars :: "addr list \<Rightarrow> 'c world \<Rightarrow> 'c world" where
  "unmap_bars [] w = w"
| "unmap_bars (a # as) w = unmap_bars as (if a \<noteq> 0 then pci_iounmap a w else w)"

definition adv_remove2 :: "adv_pci_card2 world \<Rightarrow> adv_pci_card2 world" where
  "adv_remove2 w =
     (case pci_get_drvdata w of (c, w0) \<Rightarrow>
        kfree (pci_release_region 0 (pci_disable_device
          (unmap_bars (bar_addr c) (pci_disable_msi (remove_devs (net_dev2 c) w0))))))"

text \<open>
  The body of the port loop of the second \<open>adv_probe\<close> from \<open>card->net_dev[i] = dev\<close>
  to \<open>dev->dev_id = i\<close>. The argument \<open>cd\<close> is the record that the local pointer
  \<open>card_data\<close> designates. A store or a load beyond an array is logged as a fault.
\<close>

definition setup_dev2 :: "pci_dev \<Rightarrow> card_data \<Rightarrow> nat \<Rightarrow> handle \<Rightarrow> adv_pci_card2 world \<Rightarrow> adv_pci_card2 world" where
  "setup_dev2 pdev cd i dev w =
     (let c = card w;
          w1 = (if i < length (net_dev2 c)
                then w\<lparr>card := c\<lparr>net_dev2 := (net_dev2 c)[i := dev]\<rparr>\<rparr>
                else log_fault (SlotOutOfBounds i) w);
          w2 = (if port_space cd \<noteq> 0 \<and> \<not> i < length (bar_addr c)
                then log_fault (SlotOutOfBounds i) w1 else w1);
          d = devmem w2 dev;
          p = (if port_space cd \<noteq> 0
               then (priv d)\<lparr>reg_base := (if i < length (bar_addr c) then bar_addr c ! i else 0),
                      read_reg := Some Adv_read_reg_io, write_reg := Some Adv_write_reg_io\<rparr>
               else (priv d)\<lparr>reg_base := bar_addr c ! 0 + int (iolength cd * i),
                      read_reg := Some Adv_read_reg, write_reg := Some Adv_write_reg\<rparr>)
      in w2\<lparr>devmem := (devmem w2)(dev := d\<lparr>irq := pdev_irq pdev, dev_id := i,
            priv := p\<lparr>irq_shared := True, clock_freq := ADV_PCI_CAN_CLOCK\<rparr>\<rparr>)\<rparr>)"

text \<open>
  The port loop of the second \<open>adv_probe\<close>. Its condition is written
  \<open>i < card_data->ports & PORTS_MASK\<close>, which C reads as
  \<open>(i < card_data->ports) & PORTS_MASK\<close>; the macro \<open>PORTS_MASK\<close> is not defined in the
  file and is the parameter \<open>pmask\<close>; \<open>cd\<close> is the record that the local pointer
  designates. \<open>Some err\<close> is \<open>return err\<close> from inside the loop,
  \<open>None\<close> is the normal end of the loop.
\<close>

definition loop_cond :: "32 word \<Rightarrow> card_data \<Rightarrow> nat \<Rightarrow> bool" where
  "loop_cond pmask cd i = ((if i < ports cd then 1 else 0) AND pmask \<noteq> 0)"

function probe_ports2 :: "env \<Rightarrow> 32 word \<Rightarrow> pci_dev \<Rightarrow> card_data \<Rightarrow> nat \<Rightarrow> adv_pci_card2 world \<Rightarrow> int option \<times> adv_pci_card2 world" where
  "probe_ports2 e pmask pdev cd i w =
     (if loop_cond pmask cd i
      then (case alloc_sja1000dev e i w of (dev, w1) \<Rightarrow>
        (if dev = 0 then (Some (- ENOMEM), w1)
         else (case register_sja1000dev e dev (setup_dev2 pdev cd i dev w1) of (err, w2) \<Rightarrow>
           (if err \<noteq> 0 then (Some err, free_sja1000dev dev w2)
            else probe_ports2 e pmask pdev cd (Suc i) w2))))
      else (None, w))"
  by pat_completeness auto
termination
  by (relation "measure (\<lambda>(e, pmask, pdev, cd, i, w). ports cd - i)")
     (auto simp: loop_cond_def split: if_splits)

declare probe_ports2.simps [simp del]

text \<open>
  The second \<open>adv_probe\<close>, in stages as the first one: \<open>probe_map2\<close> is the branch on
  \<open>card_data->port_space\<close> (empty for a port-mapped card, reservation and mapping of
  BAR 0 otherwise), \<open>probe_loop2\<close> the port loop and the return after it; both take
  the record \<open>cd\<close> that the local pointer designates. \<open>adv_probe2\<close> is the function up
  to the first read through the local pointer, \<open>card_data->port_space\<close>: when the address
  cannot be read, the read faults and \<open>adv_probe\<close> does not return, which is the result
  \<open>None\<close>; otherwise the result is \<open>Some\<close> of the value returned.
\<close>

definition probe_loop2 :: "env \<Rightarrow> 32 word \<Rightarrow> pci_dev \<Rightarrow> card_data \<Rightarrow> adv_pci_card2 world \<Rightarrow> int \<times> adv_pci_card2 world" where
  "probe_loop2 e pmask pdev cd w =
     (case probe_ports2 e pmask pdev cd 0 w of
        (Some err, w1) \<Rightarrow> (err, w1)
      | (None, w1) \<Rightarrow> (0, w1))"

definition probe_map2 :: "env \<Rightarrow> 32 word \<Rightarrow> pci_dev \<Rightarrow> card_data \<Rightarrow> adv_pci_card2 world \<Rightarrow> int \<times> adv_pci_card2 world" where
  "probe_map2 e pmask pdev cd w =
     (if port_space cd \<noteq> 0 then probe_loop2 e pmask pdev cd w
      else (case pci_request_region e 0 w of (err, w1) \<Rightarrow>
        (if err \<noteq> 0 then (err, adv_remove2 w1)
         else (case pci_iomap e 0 w1 of (a, w2) \<Rightarrow>
           (let w3 = w2\<lparr>card := (card w2)\<lparr>bar_addr := (bar_addr (card w2))[0 := a]\<rparr>\<rparr>
            in if a = 0 then (- ENOMEM, adv_remove2 w3)
               else probe_loop2 e pmask pdev cd w3)))))"

type_synonym stray = "board_id \<Rightarrow> card_data option"

definition adv_probe2 :: "env \<Rightarrow> 32 word \<Rightarrow> stray \<Rightarrow> pci_dev \<Rightarrow> pci_device_id \<Rightarrow> adv_pci_card2 world \<Rightarrow> int option \<times> adv_pci_card2 world" where
  "adv_probe2 e pmask stray pdev ent w =
     (case pci_enable_device e w of (r, w1) \<Rightarrow>
        (if r < 0 then (Some (- ENODEV), w1)
         else (case kzalloc e card2_0 w1 of (ok, w2) \<Rightarrow>
           (if \<not> ok then (Some (- ENOMEM), pci_disable_device w2)
            else (let w3 = pci_set_drvdata w2
                  in (case stray (driver_data ent) of
                        None \<Rightarrow> (None, log_fault UnsetPointerRead w3)
                      | Some cd \<Rightarrow>
                          (case probe_map2 e pmask pdev cd
                                  (w3\<lparr>card := (card w3)\<lparr>card_data := cd\<rparr>\<rparr>) of
                             (err, w4) \<Rightarrow> (Some err, w4))))))))"

section \<open>Definitions used in the statements and proofs\<close>

text \<open>
  One iteration of the port loop of \<open>adv_probe\<close> in which the allocation and the
  registration succeed: the state after it.
\<close>

definition port_step :: "env \<Rightarrow> pci_dev \<Rightarrow> nat \<Rightarrow> adv_pci_card world \<Rightarrow> adv_pci_card world" where
  "port_step e pdev i w =
     snd (register_sja1000dev e (alloc_res e i)
       (setup_dev pdev i (alloc_res e i) (snd (alloc_sja1000dev e i w))))"

text \<open>
  The state in which \<open>adv_probe\<close> enters its port loop: the device enabled, the card
  record allocated and stored as driver data, BAR 0 reserved and mapped.
\<close>

definition mapped :: "env \<Rightarrow> adv_pci_card world \<Rightarrow> adv_pci_card world" where
  "mapped e w =
     (let w4 = snd (pci_iomap e 0 (snd (pci_request_region e 0
                 (pci_set_drvdata (snd (kzalloc e card0 (snd (pci_enable_device e w))))))))
      in w4\<lparr>card := (card w4)\<lparr>can_addr := iomap_res e 0\<rparr>\<rparr>)"


text \<open>
  A platform on which every call succeeds: BAR 0 is mapped at \<open>0x1000\<close> and the
  \<open>k\<close>-th network device allocated is the handle \<open>7 + k\<close>. \<open>mioe_3680\<close> is the
  two-port card 0xc302.
\<close>

definition env_ok :: env where
  "env_ok = \<lparr>enable_res = 0, kzalloc_ok = True, request_res = (\<lambda>_. 0),
     iomap_res = (\<lambda>_. 0x1000), alloc_res = (\<lambda>k. 7 + k), register_res = (\<lambda>_. 0)\<rparr>"

definition mioe_3680 :: pci_dev where
  "mioe_3680 = \<lparr>device = 0xc302, pdev_irq = 5\<rparr>"

text \<open>The calls made between two states, and the order of two calls in a log.\<close>

definition calls_since :: "'c world \<Rightarrow> 'c world \<Rightarrow> event list" where
  "calls_since w w' = drop (length (calls w)) (calls w')"

definition precedes :: "'a \<Rightarrow> 'a \<Rightarrow> 'a list \<Rightarrow> bool" where
  "precedes a b xs = (a \<in> set (takeWhile (\<lambda>x. x \<noteq> b) xs) \<and> b \<in> set xs)"

text \<open>
  The register indices whose product with 4 fits a C \<open>int\<close>; every register index of
  the SJA1000 (0 to 127) is one.
\<close>

definition reg_index_ok :: "32 word \<Rightarrow> bool" where
  "reg_index_ok r = (- (2 ^ 29) \<le> sint r \<and> sint r < 2 ^ 29)"

text \<open>The calls of one \<open>adv_remove\<close> on the card record \<open>c\<close>, in order.\<close>

definition teardown :: "adv_pci_card \<Rightarrow> event list" where
  "teardown c =
     concat (map (\<lambda>h. [UnregisterDev h, FreeDev h]) (filter (\<lambda>h. h \<noteq> 0) (net_dev c))) @
     [PciDisableMsi, PciIounmap (can_addr c), PciDisableDevice, PciReleaseRegion 0, Kfree]"

text \<open>
  The number of iterations of the port loop of the second \<open>adv_probe\<close>, the state after
  one iteration that succeeds, and the state in which the loop is entered.
\<close>

definition n_ports :: "32 word \<Rightarrow> card_data \<Rightarrow> nat" where
  "n_ports pmask cd = (if 1 AND pmask \<noteq> 0 then ports cd else 0)"









definition env_reg_fail :: env where
  "env_reg_fail = env_ok\<lparr>register_res := (\<lambda>h. if h = 8 then - 5 else 0)\<rparr>"

text \<open>
  The private data of the network device in slot \<open>p\<close> of the card record, in either
  driver.
\<close>

definition port_priv :: "adv_pci_card world \<Rightarrow> nat \<Rightarrow> sja1000_priv" where
  "port_priv w p = priv (devmem w (net_dev (card w) ! p))"





definition env_busy :: env where
  "env_busy = env_ok\<lparr>request_res := (\<lambda>b. if b = 3 then - 16 else 0)\<rparr>"

definition four_port_io :: adv_pci_card2 where
  "four_port_io = card2_0\<lparr>card_data :=
     \<lparr>name = ''four ports, port-mapped'', ports = 4, iolength = 0, port_space = 1\<rparr>\<rparr>"

definition pci_1680_card :: adv_pci_card2 where
  "pci_1680_card = card2_0\<lparr>card_data := card_data_tbl pci_1680\<rparr>"

section \<open>The first driver: the port loop of attach\<close>

lemmas platform_defs =
  log_call_def log_fault_def pci_enable_device_def pci_disable_device_def
  pci_disable_msi_def kzalloc_def kfree_def pci_set_drvdata_def pci_get_drvdata_def
  pci_request_region_def pci_release_region_def pci_iomap_def pci_iounmap_def
  alloc_sja1000dev_def free_sja1000dev_def register_sja1000dev_def
  unregister_sja1000dev_def

lemma probe_ports_None:
  "probe_ports e pdev is w = (None, w') \<Longrightarrow>
     netdevs w' = netdevs w @ map (alloc_res e) is \<and>
     registered w' = registered w @ map (alloc_res e) is \<and>
     0 \<notin> alloc_res e ` set is \<and>
     regions w' = regions w \<and> iomaps w' = iomaps w \<and>
     pci_enabled w' = pci_enabled w \<and> card_alloc w' = card_alloc w \<and>
     drvdata_set w' = drvdata_set w \<and>
     can_addr (card w') = can_addr (card w) \<and>
     length (net_dev (card w')) = length (net_dev (card w))"
proof (induction "is" arbitrary: w)
  case Nil
  then show ?case by simp
next
  case (Cons i "is")
  let ?h = "alloc_res e i"
  let ?w1 = "snd (alloc_sja1000dev e i w)"
  let ?w2 = "snd (register_sja1000dev e ?h (setup_dev pdev i ?h ?w1))"
  from Cons.prems have h: "?h \<noteq> 0"
    by (auto simp: alloc_sja1000dev_def Let_def split: if_splits prod.splits)
  from Cons.prems h have r: "register_res e ?h = 0"
    by (auto simp: alloc_sja1000dev_def register_sja1000dev_def Let_def split: if_splits prod.splits)
  from Cons.prems h r have rest: "probe_ports e pdev is ?w2 = (None, w')"
    by (auto simp: alloc_sja1000dev_def register_sja1000dev_def Let_def split: if_splits prod.splits)
  note IH = Cons.IH [OF rest]
  have f: "netdevs ?w2 = netdevs w @ [?h]" "registered ?w2 = registered w @ [?h]"
    "regions ?w2 = regions w" "iomaps ?w2 = iomaps w" "pci_enabled ?w2 = pci_enabled w"
    "card_alloc ?w2 = card_alloc w" "drvdata_set ?w2 = drvdata_set w"
    "can_addr (card ?w2) = can_addr (card w)"
    "length (net_dev (card ?w2)) = length (net_dev (card w))"
    using h r by (simp_all add: platform_defs setup_dev_def Let_def)
  from IH f h show ?case by simp
qed

lemma probe_ports_Cons_None:
  assumes "probe_ports e pdev (i # is) w = (None, w')"
  shows "alloc_res e i \<noteq> 0" and "register_res e (alloc_res e i) = 0"
    and "probe_ports e pdev is (port_step e pdev i w) = (None, w')"
proof -
  from assms show h: "alloc_res e i \<noteq> 0"
    by (auto simp: alloc_sja1000dev_def Let_def split: if_splits prod.splits)
  from assms h show r: "register_res e (alloc_res e i) = 0"
    by (auto simp: alloc_sja1000dev_def register_sja1000dev_def Let_def split: if_splits prod.splits)
  from assms h r show "probe_ports e pdev is (port_step e pdev i w) = (None, w')"
    by (auto simp: port_step_def alloc_sja1000dev_def register_sja1000dev_def Let_def split: if_splits prod.splits)
qed

lemma port_step_fields:
  assumes "alloc_res e i \<noteq> 0" and "register_res e (alloc_res e i) = 0"
  shows "netdevs (port_step e pdev i w) = netdevs w @ [alloc_res e i]"
    and "registered (port_step e pdev i w) = registered w @ [alloc_res e i]"
    and "regions (port_step e pdev i w) = regions w"
    and "iomaps (port_step e pdev i w) = iomaps w"
    and "pci_enabled (port_step e pdev i w) = pci_enabled w"
    and "card_alloc (port_step e pdev i w) = card_alloc w"
    and "drvdata_set (port_step e pdev i w) = drvdata_set w"
    and "can_addr (card (port_step e pdev i w)) = can_addr (card w)"
    and "calls (port_step e pdev i w) =
           calls w @ [AllocDev (alloc_res e i), RegisterDev (alloc_res e i) 0]"
    and "i < length (net_dev (card w)) \<Longrightarrow>
           net_dev (card (port_step e pdev i w)) = (net_dev (card w))[i := alloc_res e i]"
    and "i < length (net_dev (card w)) \<Longrightarrow> faults (port_step e pdev i w) = faults w"
    and "reg_base (priv (devmem (port_step e pdev i w) (alloc_res e i))) =
           can_addr (card w) + 0x400 * int i"
    and "h \<noteq> alloc_res e i \<Longrightarrow> devmem (port_step e pdev i w) h = devmem w h"
  using assms by (simp_all add: port_step_def platform_defs setup_dev_def Let_def)

lemma probe_ports_faults:
  "probe_ports e pdev is w = (None, w') \<Longrightarrow> \<forall>i\<in>set is. i < length (net_dev (card w)) \<Longrightarrow>
     faults w' = faults w"
proof (induction "is" arbitrary: w)
  case Nil
  then show ?case by simp
next
  case (Cons i "is")
  note s = probe_ports_Cons_None [OF Cons.prems(1)]
  have len: "length (net_dev (card (port_step e pdev i w))) = length (net_dev (card w))"
    using Cons.prems(2) by (simp add: port_step_fields(10) [OF s(1,2)])
  have "faults w' = faults (port_step e pdev i w)"
    using Cons.prems(2) len by (intro Cons.IH [OF s(3)]) simp
  also have "\<dots> = faults w"
    using Cons.prems(2) by (simp add: port_step_fields(11) [OF s(1,2)])
  finally show ?case .
qed

lemma probe_ports_calls:
  "probe_ports e pdev is w = (None, w') \<Longrightarrow>
     calls w' = calls w @
       concat (map (\<lambda>i. [AllocDev (alloc_res e i), RegisterDev (alloc_res e i) 0]) is)"
proof (induction "is" arbitrary: w)
  case Nil
  then show ?case by simp
next
  case (Cons i "is")
  note s = probe_ports_Cons_None [OF Cons.prems]
  show ?case
    by (simp add: Cons.IH [OF s(3)] port_step_fields(9) [OF s(1,2)])
qed

lemma probe_ports_slots:
  "probe_ports e pdev [i..<n] w = (None, w') \<Longrightarrow> n \<le> length (net_dev (card w)) \<Longrightarrow>
     i \<le> n \<Longrightarrow> net_dev (card w') =
       take i (net_dev (card w)) @ map (alloc_res e) [i..<n] @ drop n (net_dev (card w))"
proof (induction "n - i" arbitrary: i w)
  case 0
  then have "i = n" by simp
  with 0 show ?case by simp
next
  case (Suc k)
  then have lt: "i < n" by simp
  then have up: "[i..<n] = i # [Suc i..<n]" by (simp add: upt_conv_Cons)
  note s = probe_ports_Cons_None [OF Suc.prems(1) [unfolded up]]
  let ?w = "port_step e pdev i w"
  have upd: "net_dev (card ?w) = (net_dev (card w))[i := alloc_res e i]"
    using lt Suc.prems(2) by (simp add: port_step_fields(10) [OF s(1,2)])
  have "net_dev (card w') =
      take (Suc i) (net_dev (card ?w)) @ map (alloc_res e) [Suc i..<n] @ drop n (net_dev (card ?w))"
    using Suc.hyps(2) Suc.prems(2) upd
    by (intro Suc.hyps(1) [OF _ s(3)]) (use lt in simp_all)
  then show ?case
    using lt Suc.prems(2) by (simp add: upd up take_Suc_conv_app_nth)
qed

section \<open>The first driver: detach\<close>

lemma free_fields:
  "netdevs (free_sja1000dev h w) = remove1 h (netdevs w)"
  "registered (free_sja1000dev h w) = registered w"
  "regions (free_sja1000dev h w) = regions w"
  "iomaps (free_sja1000dev h w) = iomaps w"
  "pci_enabled (free_sja1000dev h w) = pci_enabled w"
  "card_alloc (free_sja1000dev h w) = card_alloc w"
  "card (free_sja1000dev h w) = card w"
  "calls (free_sja1000dev h w) = calls w @ [FreeDev h]"
  "faults (free_sja1000dev h w) =
     faults w @ (if h \<in> set (netdevs w) then [] else [FreeNotAllocated h])"
  by (simp_all add: platform_defs Let_def remove1_idem)

lemma unregister_fields:
  "netdevs (unregister_sja1000dev h w) = netdevs w"
  "registered (unregister_sja1000dev h w) = remove1 h (registered w)"
  "regions (unregister_sja1000dev h w) = regions w"
  "iomaps (unregister_sja1000dev h w) = iomaps w"
  "pci_enabled (unregister_sja1000dev h w) = pci_enabled w"
  "card_alloc (unregister_sja1000dev h w) = card_alloc w"
  "card (unregister_sja1000dev h w) = card w"
  "calls (unregister_sja1000dev h w) = calls w @ [UnregisterDev h]"
  "faults (unregister_sja1000dev h w) =
     faults w @ (if h \<in> set (registered w) then [] else [UnregisterNotRegistered h])"
  by (simp_all add: platform_defs Let_def remove1_idem)

lemma disable_msi_fields:
  "netdevs (pci_disable_msi w) = netdevs w"
  "registered (pci_disable_msi w) = registered w"
  "regions (pci_disable_msi w) = regions w"
  "iomaps (pci_disable_msi w) = iomaps w"
  "pci_enabled (pci_disable_msi w) = pci_enabled w"
  "card_alloc (pci_disable_msi w) = card_alloc w"
  "card (pci_disable_msi w) = card w"
  "calls (pci_disable_msi w) = calls w @ [PciDisableMsi]"
  "faults (pci_disable_msi w) = faults w"
  by (simp_all add: pci_disable_msi_def log_call_def)

lemma iounmap_fields:
  "netdevs (pci_iounmap a w) = netdevs w"
  "registered (pci_iounmap a w) = registered w"
  "regions (pci_iounmap a w) = regions w"
  "iomaps (pci_iounmap a w) = remove1 a (iomaps w)"
  "pci_enabled (pci_iounmap a w) = pci_enabled w"
  "card_alloc (pci_iounmap a w) = card_alloc w"
  "card (pci_iounmap a w) = card w"
  "calls (pci_iounmap a w) = calls w @ [PciIounmap a]"
  "faults (pci_iounmap a w) =
     faults w @ (if a \<in> set (iomaps w) then [] else [IounmapNotMapped a])"
  by (simp_all add: pci_iounmap_def log_call_def log_fault_def Let_def remove1_idem)

lemma disable_fields:
  "netdevs (pci_disable_device w) = netdevs w"
  "registered (pci_disable_device w) = registered w"
  "regions (pci_disable_device w) = regions w"
  "iomaps (pci_disable_device w) = iomaps w"
  "pci_enabled (pci_disable_device w) = False"
  "card_alloc (pci_disable_device w) = card_alloc w"
  "card (pci_disable_device w) = card w"
  "calls (pci_disable_device w) = calls w @ [PciDisableDevice]"
  "faults (pci_disable_device w) =
     faults w @ (if pci_enabled w then [] else [DisableNotEnabled])"
  by (simp_all add: pci_disable_device_def log_call_def log_fault_def Let_def)

lemma release_fields:
  "netdevs (pci_release_region b w) = netdevs w"
  "registered (pci_release_region b w) = registered w"
  "regions (pci_release_region b w) = remove1 b (regions w)"
  "iomaps (pci_release_region b w) = iomaps w"
  "pci_enabled (pci_release_region b w) = pci_enabled w"
  "card_alloc (pci_release_region b w) = card_alloc w"
  "card (pci_release_region b w) = card w"
  "calls (pci_release_region b w) = calls w @ [PciReleaseRegion b]"
  "faults (pci_release_region b w) =
     faults w @ (if b \<in> set (regions w) then [] else [ReleaseNotReserved b])"
  by (simp_all add: pci_release_region_def log_call_def log_fault_def Let_def remove1_idem)

lemma kfree_fields:
  "netdevs (kfree w) = netdevs w"
  "registered (kfree w) = registered w"
  "regions (kfree w) = regions w"
  "iomaps (kfree w) = iomaps w"
  "pci_enabled (kfree w) = pci_enabled w"
  "card_alloc (kfree w) = False"
  "card (kfree w) = card w"
  "calls (kfree w) = calls w @ [Kfree]"
  "faults (kfree w) = faults w @ (if card_alloc w then [] else [KfreeNotAllocated])"
  by (simp_all add: kfree_def log_call_def log_fault_def Let_def)

lemma get_drvdata_fields:
  "fst (pci_get_drvdata w) = card w"
  "netdevs (snd (pci_get_drvdata w)) = netdevs w"
  "registered (snd (pci_get_drvdata w)) = registered w"
  "regions (snd (pci_get_drvdata w)) = regions w"
  "iomaps (snd (pci_get_drvdata w)) = iomaps w"
  "pci_enabled (snd (pci_get_drvdata w)) = pci_enabled w"
  "card_alloc (snd (pci_get_drvdata w)) = card_alloc w"
  "card (snd (pci_get_drvdata w)) = card w"
  "calls (snd (pci_get_drvdata w)) = calls w"
  "faults (snd (pci_get_drvdata w)) =
     faults w @ (if card_alloc w then [] else [CardUseAfterFree])"
  by (simp_all add: pci_get_drvdata_def log_fault_def)

lemmas teardown_fields =
  free_fields unregister_fields disable_msi_fields iounmap_fields disable_fields
  release_fields kfree_fields get_drvdata_fields

lemma remove_devs_fields:
  "netdevs (remove_devs ds w) = fold remove1 (filter (\<lambda>h. h \<noteq> 0) ds) (netdevs w)"
  "registered (remove_devs ds w) = fold remove1 (filter (\<lambda>h. h \<noteq> 0) ds) (registered w)"
  "regions (remove_devs ds w) = regions w"
  "iomaps (remove_devs ds w) = iomaps w"
  "pci_enabled (remove_devs ds w) = pci_enabled w"
  "card_alloc (remove_devs ds w) = card_alloc w"
  "card (remove_devs ds w) = card w"
  "calls (remove_devs ds w) =
     calls w @ concat (map (\<lambda>h. [UnregisterDev h, FreeDev h]) (filter (\<lambda>h. h \<noteq> 0) ds))"
  by (induction ds arbitrary: w; simp add: free_fields unregister_fields)+


lemma remove_devs_faults:
  "netdevs w = filter (\<lambda>h. h \<noteq> 0) ds @ ns \<Longrightarrow> registered w = filter (\<lambda>h. h \<noteq> 0) ds @ rs \<Longrightarrow>
     faults (remove_devs ds w) = faults w"
  by (induction ds arbitrary: w) (simp_all add: free_fields unregister_fields)

lemma adv_remove_eq:
  "adv_remove w =
     kfree (pci_release_region 0 (pci_disable_device (pci_iounmap (can_addr (card w))
       (pci_disable_msi (remove_devs (net_dev (card w)) (snd (pci_get_drvdata w)))))))"
  by (simp add: adv_remove_def pci_get_drvdata_def)

lemma adv_remove_fields:
  "netdevs (adv_remove w) = fold remove1 (filter (\<lambda>h. h \<noteq> 0) (net_dev (card w))) (netdevs w)"
  "registered (adv_remove w) = fold remove1 (filter (\<lambda>h. h \<noteq> 0) (net_dev (card w))) (registered w)"
  "regions (adv_remove w) = remove1 0 (regions w)"
  "iomaps (adv_remove w) = remove1 (can_addr (card w)) (iomaps w)"
  "pci_enabled (adv_remove w) = False"
  "card_alloc (adv_remove w) = False"
  "card (adv_remove w) = card w"
  by (simp_all only: adv_remove_eq teardown_fields remove_devs_fields)

lemma adv_remove_calls:
  "calls (adv_remove w) = calls w @
     concat (map (\<lambda>h. [UnregisterDev h, FreeDev h]) (filter (\<lambda>h. h \<noteq> 0) (net_dev (card w)))) @
     [PciDisableMsi, PciIounmap (can_addr (card w)), PciDisableDevice, PciReleaseRegion 0, Kfree]"
  by (simp only: adv_remove_eq teardown_fields remove_devs_fields append_assoc append.simps)

lemma adv_remove_faults_eq:
  "faults (adv_remove w) =
     faults (remove_devs (net_dev (card w)) (snd (pci_get_drvdata w))) @
     (if can_addr (card w) \<in> set (iomaps w) then [] else [IounmapNotMapped (can_addr (card w))]) @
     (if pci_enabled w then [] else [DisableNotEnabled]) @
     (if 0 \<in> set (regions w) then [] else [ReleaseNotReserved 0]) @
     (if card_alloc w then [] else [KfreeNotAllocated])"
  by (simp only: adv_remove_eq teardown_fields remove_devs_fields append_assoc)

section \<open>The first driver: an attach that succeeds\<close>

lemma probe_ports_Some:
  "probe_ports e pdev is w = (Some err, w') \<Longrightarrow> err \<noteq> 0"
  by (induction "is" arbitrary: w)
     (auto simp: ENOMEM_def alloc_sja1000dev_def register_sja1000dev_def Let_def
           split: if_splits prod.splits)

lemma adv_probe_ok:
  assumes "fst (adv_probe e pdev w) = 0"
  shows "\<not> enable_res e < 0" and "kzalloc_ok e" and "request_res e 0 = 0"
    and "iomap_res e 0 \<noteq> 0"
    and "probe_ports e pdev [0..<unat (device pdev AND 0xf)] (mapped e w) =
           (None, snd (adv_probe e pdev w))"
proof -
  from assms show a: "\<not> enable_res e < 0"
    by (auto simp: adv_probe_def pci_enable_device_def Let_def ENODEV_def split: if_splits)
  from assms a show b: "kzalloc_ok e"
    by (auto simp: adv_probe_def pci_enable_device_def kzalloc_def Let_def ENOMEM_def
        split: if_splits)
  have pm: "adv_probe e pdev w =
      probe_map e pdev (pci_set_drvdata (snd (kzalloc e card0 (snd (pci_enable_device e w)))))"
    using a b by (simp add: adv_probe_def pci_enable_device_def kzalloc_def Let_def)
  from assms show c: "request_res e 0 = 0"
    unfolding pm by (auto simp: probe_map_def pci_request_region_def Let_def split: if_splits)
  from assms c show d: "iomap_res e 0 \<noteq> 0"
    unfolding pm
    by (auto simp: probe_map_def pci_request_region_def pci_iomap_def Let_def ENOMEM_def
        split: if_splits)
  have pl: "adv_probe e pdev w = probe_loop e pdev (mapped e w)"
    unfolding pm using c d
    by (simp add: probe_map_def mapped_def pci_request_region_def pci_iomap_def Let_def)
  from assms show "probe_ports e pdev [0..<unat (device pdev AND 0xf)] (mapped e w) =
           (None, snd (adv_probe e pdev w))"
    unfolding pl
    by (auto simp: probe_loop_def split: prod.splits option.splits dest: probe_ports_Some)
qed

lemma mapped_fields:
  assumes "\<not> enable_res e < 0" and "kzalloc_ok e" and "request_res e 0 = 0"
  and "iomap_res e 0 \<noteq> 0"
  shows "netdevs (mapped e w) = netdevs w"
    and "registered (mapped e w) = registered w"
    and "regions (mapped e w) = regions w @ [0]"
    and "iomaps (mapped e w) = iomaps w @ [iomap_res e 0]"
    and "pci_enabled (mapped e w)"
    and "card_alloc (mapped e w)"
    and "drvdata_set (mapped e w)"
    and "card (mapped e w) = \<lparr>can_addr = iomap_res e 0, net_dev = [0, 0, 0, 0]\<rparr>"
    and "faults (mapped e w) = faults w"
    and "calls (mapped e w) = calls w @ [PciEnableDevice (enable_res e), Kzalloc True,
           PciSetDrvdata, PciRequestRegion 0 0, PciIomap 0 (iomap_res e 0)]"
  using assms by (simp_all add: mapped_def platform_defs card0_def Let_def)

lemma adv_probe_mapped:
  assumes "\<not> enable_res e < 0" and "kzalloc_ok e" and "request_res e 0 = 0"
    and "iomap_res e 0 \<noteq> 0"
  shows "adv_probe e pdev w = probe_loop e pdev (mapped e w)"
  using assms
  by (simp add: adv_probe_def probe_map_def mapped_def pci_enable_device_def kzalloc_def
      pci_request_region_def pci_iomap_def Let_def)

lemma probe_loop_eq:
  "probe_loop e pdev w =
     (case fst (probe_ports e pdev [0..<unat (device pdev AND 0xf)] w) of
        Some err \<Rightarrow> (err, adv_remove (snd (probe_ports e pdev [0..<unat (device pdev AND 0xf)] w)))
      | None \<Rightarrow> (0, snd (probe_ports e pdev [0..<unat (device pdev AND 0xf)] w)))"
  by (simp add: probe_loop_def split: prod.splits option.splits)

lemma probe_ports_Cons_ok:
  "alloc_res e i \<noteq> 0 \<Longrightarrow> register_res e (alloc_res e i) = 0 \<Longrightarrow>
     probe_ports e pdev (i # is) w = probe_ports e pdev is (port_step e pdev i w)"
  by (simp add: port_step_def alloc_sja1000dev_def register_sja1000dev_def Let_def)

lemma probe_ports_succeeds:
  "\<forall>i\<in>set is. alloc_res e i \<noteq> 0 \<and> register_res e (alloc_res e i) = 0 \<Longrightarrow>
     fst (probe_ports e pdev is w) = None"
proof (induction "is" arbitrary: w)
  case Nil
  then show ?case by simp
next
  case (Cons i "is")
  then have "probe_ports e pdev (i # is) w = probe_ports e pdev is (port_step e pdev i w)"
    by (intro probe_ports_Cons_ok) simp_all
  with Cons show ?case by (simp del: probe_ports.simps)
qed

lemma adv_probe_succeeds:
  assumes "\<not> enable_res e < 0" and "kzalloc_ok e" and "request_res e 0 = 0"
    and "iomap_res e 0 \<noteq> 0"
    and "\<forall>i<unat (device pdev AND 0xf). alloc_res e i \<noteq> 0 \<and> register_res e (alloc_res e i) = 0"
  shows "fst (adv_probe e pdev w) = 0"
proof -
  from assms(5) have "fst (probe_ports e pdev [0..<unat (device pdev AND 0xf)] (mapped e w)) = None"
    by (intro probe_ports_succeeds) simp
  then show ?thesis
    by (simp add: adv_probe_mapped [OF assms(1-4)] probe_loop_eq)
qed

lemma adv_pci_tbl_ports:
  "d \<in> set adv_pci_tbl \<Longrightarrow> unat (d AND 0xf) \<in> {1, 2, 4}"
  by (auto simp: adv_pci_tbl_def)

lemma world0_fields:
  "netdevs (world0 c) = []" "registered (world0 c) = []" "regions (world0 c) = []"
  "iomaps (world0 c) = []" "faults (world0 c) = []" "calls (world0 c) = []"
  "\<not> pci_enabled (world0 c)" "\<not> card_alloc (world0 c)" "card (world0 c) = c"
  by (simp_all add: world0_def)

lemma adv_probe_active:
  assumes ok: "fst (adv_probe e pdev (world0 card0)) = 0"
    and n: "unat (device pdev AND 0xf) \<le> 4"
  shows "netdevs (snd (adv_probe e pdev (world0 card0))) =
           map (alloc_res e) [0..<unat (device pdev AND 0xf)]"
    and "registered (snd (adv_probe e pdev (world0 card0))) =
           map (alloc_res e) [0..<unat (device pdev AND 0xf)]"
    and "0 \<notin> alloc_res e ` {0..<unat (device pdev AND 0xf)}"
    and "regions (snd (adv_probe e pdev (world0 card0))) = [0]"
    and "iomaps (snd (adv_probe e pdev (world0 card0))) = [iomap_res e 0]"
    and "pci_enabled (snd (adv_probe e pdev (world0 card0)))"
    and "card_alloc (snd (adv_probe e pdev (world0 card0)))"
    and "can_addr (card (snd (adv_probe e pdev (world0 card0)))) = iomap_res e 0"
    and "net_dev (card (snd (adv_probe e pdev (world0 card0)))) =
           map (alloc_res e) [0..<unat (device pdev AND 0xf)] @
           replicate (4 - unat (device pdev AND 0xf)) 0"
    and "faults (snd (adv_probe e pdev (world0 card0))) = []"
    and "calls (snd (adv_probe e pdev (world0 card0))) =
           [PciEnableDevice (enable_res e), Kzalloc True, PciSetDrvdata,
            PciRequestRegion 0 0, PciIomap 0 (iomap_res e 0)] @
           concat (map (\<lambda>i. [AllocDev (alloc_res e i), RegisterDev (alloc_res e i) 0])
             [0..<unat (device pdev AND 0xf)])"
proof -
  note c = adv_probe_ok [OF ok]
  note m = mapped_fields [OF c(1-4), of "world0 card0"]
  note p = probe_ports_None [OF c(5)]
  let ?n = "unat (device pdev AND 0xf)"
  let ?w = "snd (adv_probe e pdev (world0 card0))"
  show "netdevs ?w = map (alloc_res e) [0..<?n]" "registered ?w = map (alloc_res e) [0..<?n]"
    "0 \<notin> alloc_res e ` {0..<?n}" "regions ?w = [0]" "iomaps ?w = [iomap_res e 0]"
    "pci_enabled ?w" "card_alloc ?w" "can_addr (card ?w) = iomap_res e 0"
    using p by (simp_all add: m world0_fields)
  have "net_dev (card ?w) = take 0 (net_dev (card (mapped e (world0 card0)))) @
      map (alloc_res e) [0..<?n] @ drop ?n (net_dev (card (mapped e (world0 card0))))"
    using n by (intro probe_ports_slots [OF c(5)]) (simp_all add: m)
  also have "drop ?n (net_dev (card (mapped e (world0 card0)))) = replicate (4 - ?n) 0"
  proof -
    have "[0, 0, 0, 0] = replicate 4 (0::nat)" by (simp add: numeral_eq_Suc)
    then show ?thesis by (simp add: m)
  qed
  finally show "net_dev (card ?w) = map (alloc_res e) [0..<?n] @ replicate (4 - ?n) 0"
    by simp
  have "faults ?w = faults (mapped e (world0 card0))"
    using n by (intro probe_ports_faults [OF c(5)]) (simp add: m)
  then show "faults ?w = []" by (simp add: m world0_fields)
  show "calls ?w = [PciEnableDevice (enable_res e), Kzalloc True, PciSetDrvdata,
            PciRequestRegion 0 0, PciIomap 0 (iomap_res e 0)] @
           concat (map (\<lambda>i. [AllocDev (alloc_res e i), RegisterDev (alloc_res e i) 0]) [0..<?n])"
    by (simp add: probe_ports_calls [OF c(5)] m world0_fields)
qed

lemma filter_nonzero:
  "0 \<notin> set hs \<Longrightarrow> filter (\<lambda>h. 0 < h) hs = (hs :: nat list)"
  by (induction hs) auto



lemma env_ok_simps:
  "\<not> enable_res env_ok < 0" "kzalloc_ok env_ok" "request_res env_ok b = 0"
  "iomap_res env_ok b = 0x1000" "iomap_res env_ok b \<noteq> 0" "alloc_res env_ok k = 7 + k"
  "alloc_res env_ok k \<noteq> 0" "register_res env_ok h = 0" "enable_res env_ok = 0"
  by (simp_all add: env_ok_def)

lemma upt_2: "[0..<2] = [0, Suc 0]"
  by (simp add: upt_conv_Cons)

lemma mioe_ports: "unat (device mioe_3680 AND 0xf) = 2"
  by (simp add: mioe_3680_def)

lemma mioe_supported: "device mioe_3680 \<in> set adv_pci_tbl"
  by (simp add: mioe_3680_def adv_pci_tbl_def)

lemma mioe_attach_ok: "fst (adv_probe env_ok mioe_3680 (world0 card0)) = 0"
  by (rule adv_probe_succeeds) (simp_all add: env_ok_simps)

lemma mioe_active:
  "card (snd (adv_probe env_ok mioe_3680 (world0 card0))) =
     \<lparr>can_addr = 0x1000, net_dev = [7, 8, 0, 0]\<rparr>"
  "netdevs (snd (adv_probe env_ok mioe_3680 (world0 card0))) = [7, 8]"
  "registered (snd (adv_probe env_ok mioe_3680 (world0 card0))) = [7, 8]"
  "regions (snd (adv_probe env_ok mioe_3680 (world0 card0))) = [0]"
  "iomaps (snd (adv_probe env_ok mioe_3680 (world0 card0))) = [0x1000]"
  "pci_enabled (snd (adv_probe env_ok mioe_3680 (world0 card0)))"
  "card_alloc (snd (adv_probe env_ok mioe_3680 (world0 card0)))"
  "faults (snd (adv_probe env_ok mioe_3680 (world0 card0))) = []"
  "calls (snd (adv_probe env_ok mioe_3680 (world0 card0))) =
     [PciEnableDevice 0, Kzalloc True, PciSetDrvdata, PciRequestRegion 0 0,
      PciIomap 0 0x1000, AllocDev 7, RegisterDev 7 0, AllocDev 8, RegisterDev 8 0]"
proof -
  have n: "unat (device mioe_3680 AND 0xf) \<le> 4"
    by (simp add: mioe_ports)
  note a = adv_probe_active [OF mioe_attach_ok n, unfolded mioe_ports upt_2]
  have e: "alloc_res env_ok 0 = 7" "alloc_res env_ok (Suc 0) = 8" "iomap_res env_ok 0 = 0x1000"
    "enable_res env_ok = 0"
    by (simp_all add: env_ok_def)
  show "card (snd (adv_probe env_ok mioe_3680 (world0 card0))) =
     \<lparr>can_addr = 0x1000, net_dev = [7, 8, 0, 0]\<rparr>"
    using a(8,9) by (cases "card (snd (adv_probe env_ok mioe_3680 (world0 card0)))")
      (simp add: e numeral_eq_Suc)
  show "netdevs (snd (adv_probe env_ok mioe_3680 (world0 card0))) = [7, 8]"
    "registered (snd (adv_probe env_ok mioe_3680 (world0 card0))) = [7, 8]"
    "regions (snd (adv_probe env_ok mioe_3680 (world0 card0))) = [0]"
    "iomaps (snd (adv_probe env_ok mioe_3680 (world0 card0))) = [0x1000]"
    "pci_enabled (snd (adv_probe env_ok mioe_3680 (world0 card0)))"
    "card_alloc (snd (adv_probe env_ok mioe_3680 (world0 card0)))"
    "faults (snd (adv_probe env_ok mioe_3680 (world0 card0))) = []"
    "calls (snd (adv_probe env_ok mioe_3680 (world0 card0))) =
     [PciEnableDevice 0, Kzalloc True, PciSetDrvdata, PciRequestRegion 0 0,
      PciIomap 0 0x1000, AllocDev 7, RegisterDev 7 0, AllocDev 8, RegisterDev 8 0]"
    using a by (simp_all add: e)
qed

section \<open>The first driver: the order and the repetition of detach\<close>

lemma adv_remove_faults:
  assumes "card_alloc w" and "pci_enabled w" and "0 \<in> set (regions w)"
    and "can_addr (card w) \<in> set (iomaps w)"
    and "netdevs w = filter (\<lambda>h. h \<noteq> 0) (net_dev (card w)) @ ns"
    and "registered w = filter (\<lambda>h. h \<noteq> 0) (net_dev (card w)) @ rs"
  shows "faults (adv_remove w) = faults w"
proof -
  have "faults (remove_devs (net_dev (card w)) (snd (pci_get_drvdata w))) =
      faults (snd (pci_get_drvdata w))"
    using assms(5,6) by (intro remove_devs_faults) (simp_all only: get_drvdata_fields)
  then show ?thesis
    using assms(1-4) by (simp add: adv_remove_faults_eq get_drvdata_fields)
qed

lemma adv_remove_again:
  "calls_since (adv_remove w) (adv_remove (adv_remove w)) = calls_since w (adv_remove w)"
  by (simp add: calls_since_def adv_remove_calls adv_remove_fields)

lemma calls_since_adv_remove:
  "calls_since w (adv_remove w) = teardown (card w)"
  by (simp add: calls_since_def adv_remove_calls teardown_def)

text \<open>
  C8 (as amended). \<open>adv_remove\<close> makes exactly these calls, in this order: for every
  slot of \<open>net_dev\<close> that is not \<open>NULL\<close>, in slot order, \<open>unregister_sja1000dev\<close> then
  \<open>free_sja1000dev\<close>; then \<open>pci_disable_msi\<close>; then \<open>pci_iounmap\<close> of the mapping;
  then \<open>pci_disable_device\<close>; then \<open>pci_release_region\<close> of BAR 0; then \<open>kfree\<close> of
  the card record. The region is unmapped before it is released, but the device is
  disabled between the two, not after the release.
\<close>

theorem detach_order:
  "calls_since w (adv_remove w) = teardown (card w)"
  by (rule calls_since_adv_remove)

theorem detach_order_witness:
  "calls_since (snd (adv_probe env_ok mioe_3680 (world0 card0)))
     (adv_remove (snd (adv_probe env_ok mioe_3680 (world0 card0)))) =
   [UnregisterDev 7, FreeDev 7, UnregisterDev 8, FreeDev 8,
    PciDisableMsi, PciIounmap 0x1000, PciDisableDevice, PciReleaseRegion 0, Kfree]"
  using detach_order [of "snd (adv_probe env_ok mioe_3680 (world0 card0))"]
  by (simp add: teardown_def mioe_active)

theorem detach_order_counterexample:
  "\<not> precedes (PciReleaseRegion 0) PciDisableDevice
       (calls_since (snd (adv_probe env_ok mioe_3680 (world0 card0)))
          (adv_remove (snd (adv_probe env_ok mioe_3680 (world0 card0)))))"
  by (simp add: calls_since_def adv_remove_calls mioe_active precedes_def)

text \<open>
  C9 (as amended). The one \<open>adv_remove\<close> that follows a successful \<open>adv_probe\<close> of a
  supported card releases nothing twice: it logs no fault. \<open>adv_remove\<close> keeps no mark
  of having run: a second call on the same card repeats every teardown call of the first.
\<close>

theorem detach_once:
  assumes "device pdev \<in> set adv_pci_tbl"
    and "fst (adv_probe e pdev (world0 card0)) = 0"
  shows "faults (adv_remove (snd (adv_probe e pdev (world0 card0)))) = [] \<and>
         calls_since (adv_remove (snd (adv_probe e pdev (world0 card0))))
           (adv_remove (adv_remove (snd (adv_probe e pdev (world0 card0))))) =
         teardown (card (snd (adv_probe e pdev (world0 card0))))"
proof -
  let ?w = "snd (adv_probe e pdev (world0 card0))"
  from assms(1) have n: "unat (device pdev AND 0xf) \<le> 4"
    by (auto dest: adv_pci_tbl_ports)
  note a = adv_probe_active [OF assms(2) n]
  have z: "0 \<notin> set (map (alloc_res e) [0..<unat (device pdev AND 0xf)])"
    using a(3) by simp
  have f: "filter (\<lambda>h. h \<noteq> 0) (net_dev (card ?w)) =
      map (alloc_res e) [0..<unat (device pdev AND 0xf)]"
    using filter_nonzero [OF z] by (simp add: a(9))
  have "faults (adv_remove ?w) = faults ?w"
    by (rule adv_remove_faults [where ns = "[]" and rs = "[]"]) (simp_all only: a(1-8) f append_Nil2 list.set_intros)
  then have "faults (adv_remove ?w) = []"
    by (simp add: a(10))
  moreover have "calls_since (adv_remove ?w) (adv_remove (adv_remove ?w)) = teardown (card ?w)"
    by (simp only: adv_remove_again calls_since_adv_remove adv_remove_fields)
  ultimately show ?thesis by simp
qed

theorem detach_once_witness:
  "faults (adv_remove (snd (adv_probe env_ok mioe_3680 (world0 card0)))) = [] \<and>
   calls_since (adv_remove (snd (adv_probe env_ok mioe_3680 (world0 card0))))
     (adv_remove (adv_remove (snd (adv_probe env_ok mioe_3680 (world0 card0))))) =
   [UnregisterDev 7, FreeDev 7, UnregisterDev 8, FreeDev 8,
    PciDisableMsi, PciIounmap 0x1000, PciDisableDevice, PciReleaseRegion 0, Kfree]"
  using detach_once [OF mioe_supported mioe_attach_ok]
  by (simp add: teardown_def mioe_active)

lemma mioe_removed:
  "card (adv_remove (snd (adv_probe env_ok mioe_3680 (world0 card0)))) =
     \<lparr>can_addr = 0x1000, net_dev = [7, 8, 0, 0]\<rparr>"
  "netdevs (adv_remove (snd (adv_probe env_ok mioe_3680 (world0 card0)))) = []"
  "registered (adv_remove (snd (adv_probe env_ok mioe_3680 (world0 card0)))) = []"
  "regions (adv_remove (snd (adv_probe env_ok mioe_3680 (world0 card0)))) = []"
  "iomaps (adv_remove (snd (adv_probe env_ok mioe_3680 (world0 card0)))) = []"
  "\<not> pci_enabled (adv_remove (snd (adv_probe env_ok mioe_3680 (world0 card0))))"
  "\<not> card_alloc (adv_remove (snd (adv_probe env_ok mioe_3680 (world0 card0))))"
  by (simp_all add: adv_remove_fields mioe_active)

theorem detach_twice_counterexample:
  "faults (adv_remove (snd (adv_probe env_ok mioe_3680 (world0 card0)))) = [] \<and>
   faults (adv_remove (adv_remove (snd (adv_probe env_ok mioe_3680 (world0 card0))))) =
     [CardUseAfterFree, UnregisterNotRegistered 7, FreeNotAllocated 7,
      UnregisterNotRegistered 8, FreeNotAllocated 8, IounmapNotMapped 0x1000,
      DisableNotEnabled, ReleaseNotReserved 0, KfreeNotAllocated]"
proof -
  let ?w = "snd (adv_probe env_ok mioe_3680 (world0 card0))"
  have 1: "faults (adv_remove ?w) = []"
    using adv_remove_faults [of ?w "[]" "[]"] by (simp add: mioe_active)
  have "faults (adv_remove (adv_remove ?w)) =
     [CardUseAfterFree, UnregisterNotRegistered 7, FreeNotAllocated 7,
      UnregisterNotRegistered 8, FreeNotAllocated 8, IounmapNotMapped 0x1000,
      DisableNotEnabled, ReleaseNotReserved 0, KfreeNotAllocated]"
    by (simp add: adv_remove_faults_eq [of "adv_remove ?w"] mioe_removed 1 teardown_fields)
  with 1 show ?thesis by simp
qed

section \<open>The second driver: attach and detach\<close>








lemma unmap_bars_fields:
  "netdevs (unmap_bars as w) = netdevs w"
  "registered (unmap_bars as w) = registered w"
  "regions (unmap_bars as w) = regions w"
  "iomaps (unmap_bars as w) = fold remove1 (filter (\<lambda>a. a \<noteq> 0) as) (iomaps w)"
  "pci_enabled (unmap_bars as w) = pci_enabled w"
  "card_alloc (unmap_bars as w) = card_alloc w"
  "card (unmap_bars as w) = card w"
  by (induction as arbitrary: w; simp add: iounmap_fields)+

lemma adv_remove2_eq:
  "adv_remove2 w =
     kfree (pci_release_region 0 (pci_disable_device (unmap_bars (bar_addr (card w))
       (pci_disable_msi (remove_devs (net_dev2 (card w)) (snd (pci_get_drvdata w)))))))"
  by (simp add: adv_remove2_def pci_get_drvdata_def)

lemma adv_remove2_fields:
  "netdevs (adv_remove2 w) = fold remove1 (filter (\<lambda>h. h \<noteq> 0) (net_dev2 (card w))) (netdevs w)"
  "registered (adv_remove2 w) = fold remove1 (filter (\<lambda>h. h \<noteq> 0) (net_dev2 (card w))) (registered w)"
  "regions (adv_remove2 w) = remove1 0 (regions w)"
  "iomaps (adv_remove2 w) = fold remove1 (filter (\<lambda>a. a \<noteq> 0) (bar_addr (card w))) (iomaps w)"
  "pci_enabled (adv_remove2 w) = False"
  "card_alloc (adv_remove2 w) = False"
  "card (adv_remove2 w) = card w"
  by (simp_all only: adv_remove2_eq teardown_fields remove_devs_fields unmap_bars_fields)

lemma card_data_tbl_ports: "ports (card_data_tbl b) \<in> {1, 2, 4}"
  by (cases b) simp_all

lemma n_ports_tbl_le: "n_ports pmask (card_data_tbl b) \<le> 4"
  using card_data_tbl_ports [of b] by (auto simp: n_ports_def)


lemma adv_probe2_readable:
  assumes "fst (adv_probe2 e pmask stray pdev ent w) = Some 0"
  shows "\<exists>cd. stray (driver_data ent) = Some cd"
  using assms
  by (cases "stray (driver_data ent)")
     (auto simp: adv_probe2_def pci_enable_device_def kzalloc_def Let_def ENODEV_def ENOMEM_def
       split: if_splits)







section \<open>Attach at failing inputs\<close>





lemma env_reg_fail_simps:
  "\<not> enable_res env_reg_fail < 0" "kzalloc_ok env_reg_fail" "request_res env_reg_fail 0 = 0"
  "iomap_res env_reg_fail 0 = 0x1000" "iomap_res env_reg_fail 0 \<noteq> 0"
  "alloc_res env_reg_fail 0 = 7"
  "alloc_res env_reg_fail (Suc 0) = 8" "register_res env_reg_fail 7 = 0"
  "register_res env_reg_fail 8 = - 5" "enable_res env_reg_fail = 0"
  by (simp_all add: env_reg_fail_def env_ok_def)

lemma reg_fail_cleanup:
  "fst (probe_ports env_reg_fail mioe_3680 [0, Suc 0] (mapped env_reg_fail (world0 card0))) =
     Some (- 5)"
  "card (snd (probe_ports env_reg_fail mioe_3680 [0, Suc 0] (mapped env_reg_fail (world0 card0)))) =
     \<lparr>can_addr = 0x1000, net_dev = [7, 8, 0, 0]\<rparr>"
  "netdevs (snd (probe_ports env_reg_fail mioe_3680 [0, Suc 0] (mapped env_reg_fail (world0 card0)))) = [7]"
  "registered (snd (probe_ports env_reg_fail mioe_3680 [0, Suc 0] (mapped env_reg_fail (world0 card0)))) = [7]"
  "regions (snd (probe_ports env_reg_fail mioe_3680 [0, Suc 0] (mapped env_reg_fail (world0 card0)))) = [0]"
  "iomaps (snd (probe_ports env_reg_fail mioe_3680 [0, Suc 0] (mapped env_reg_fail (world0 card0)))) = [0x1000]"
  "pci_enabled (snd (probe_ports env_reg_fail mioe_3680 [0, Suc 0] (mapped env_reg_fail (world0 card0))))"
  "card_alloc (snd (probe_ports env_reg_fail mioe_3680 [0, Suc 0] (mapped env_reg_fail (world0 card0))))"
  "faults (snd (probe_ports env_reg_fail mioe_3680 [0, Suc 0] (mapped env_reg_fail (world0 card0)))) = []"
  "calls (snd (probe_ports env_reg_fail mioe_3680 [0, Suc 0] (mapped env_reg_fail (world0 card0)))) =
     [PciEnableDevice 0, Kzalloc True, PciSetDrvdata, PciRequestRegion 0 0,
      PciIomap 0 0x1000, AllocDev 7, RegisterDev 7 0, AllocDev 8, RegisterDev 8 (- 5),
      FreeDev 8]"
  by (simp_all add: env_reg_fail_simps platform_defs setup_dev_def
      mapped_fields [of env_reg_fail, OF env_reg_fail_simps(1,2,3,5)] world0_fields)

lemma c2_eval:
  "fst (adv_probe env_reg_fail mioe_3680 (world0 card0)) = - 5"
  "calls (snd (adv_probe env_reg_fail mioe_3680 (world0 card0))) =
     [PciEnableDevice 0, Kzalloc True, PciSetDrvdata, PciRequestRegion 0 0,
      PciIomap 0 0x1000, AllocDev 7, RegisterDev 7 0, AllocDev 8, RegisterDev 8 (- 5),
      FreeDev 8, UnregisterDev 7, FreeDev 7, UnregisterDev 8, FreeDev 8,
      PciDisableMsi, PciIounmap 0x1000, PciDisableDevice, PciReleaseRegion 0, Kfree]"
  "faults (snd (adv_probe env_reg_fail mioe_3680 (world0 card0))) =
     [UnregisterNotRegistered 8, FreeNotAllocated 8]"
  unfolding adv_probe_mapped [of env_reg_fail, OF env_reg_fail_simps(1,2,3,5)]
    probe_loop_eq mioe_ports upt_2
  by (simp_all add: reg_fail_cleanup adv_remove_calls adv_remove_faults_eq teardown_fields
      del: probe_ports.simps)

section \<open>Port-mapped acquisition\<close>

lemma request_fields:
  "fst (pci_request_region e b w) = request_res e b"
  "calls (snd (pci_request_region e b w)) = calls w @ [PciRequestRegion b (request_res e b)]"
  "regions (snd (pci_request_region e b w)) =
     regions w @ (if request_res e b = 0 then [b] else [])"
  by (simp_all add: pci_request_region_def log_call_def Let_def)

lemma alloc_io_loop_Cons:
  "alloc_io_loop e (i # is) w =
     (if request_res e (2 + i) \<noteq> 0
      then (request_res e (2 + i), snd (pci_request_region e (2 + i) w))
      else alloc_io_loop e is (snd (pci_request_region e (2 + i) w)))"
  by (simp add: pci_request_region_def Let_def)

lemma alloc_io_loop_ok:
  "\<forall>i\<in>set is. request_res e (2 + i) = 0 \<Longrightarrow>
     fst (alloc_io_loop e is w) = 0 \<and>
     calls (snd (alloc_io_loop e is w)) =
       calls w @ map (\<lambda>i. PciRequestRegion (2 + i) 0) is \<and>
     regions (snd (alloc_io_loop e is w)) = regions w @ map (\<lambda>i. 2 + i) is"
proof (induction "is" arbitrary: w)
  case Nil
  then show ?case by simp
next
  case (Cons i "is")
  then have r: "request_res e (2 + i) = 0" by simp
  have step: "alloc_io_loop e (i # is) w = alloc_io_loop e is (snd (pci_request_region e (2 + i) w))"
    using r by (simp only: alloc_io_loop_Cons if_False simp_thms)
  from Cons.prems have "\<forall>i\<in>set is. request_res e (2 + i) = 0" by simp
  from Cons.IH [OF this, of "snd (pci_request_region e (2 + i) w)"] r
  show ?case by (simp add: step request_fields del: alloc_io_loop.simps)
qed

lemma alloc_io_loop_fail:
  "\<forall>i\<in>set xs. request_res e (2 + i) = 0 \<Longrightarrow> request_res e (2 + k) \<noteq> 0 \<Longrightarrow>
     fst (alloc_io_loop e (xs @ k # ys) w) = request_res e (2 + k) \<and>
     calls (snd (alloc_io_loop e (xs @ k # ys) w)) =
       calls w @ map (\<lambda>i. PciRequestRegion (2 + i) 0) xs @
       [PciRequestRegion (2 + k) (request_res e (2 + k))] \<and>
     regions (snd (alloc_io_loop e (xs @ k # ys) w)) = regions w @ map (\<lambda>i. 2 + i) xs"
proof (induction xs arbitrary: w)
  case Nil
  then show ?case
    by (simp add: alloc_io_loop_Cons request_fields del: alloc_io_loop.simps)
next
  case (Cons i xs)
  then have r: "request_res e (2 + i) = 0" by simp
  have step: "alloc_io_loop e (i # xs @ k # ys) w =
      alloc_io_loop e (xs @ k # ys) (snd (pci_request_region e (2 + i) w))"
    using r by (simp only: alloc_io_loop_Cons if_False simp_thms)
  from Cons.prems have "\<forall>i\<in>set xs. request_res e (2 + i) = 0" by simp
  from Cons.IH [OF this Cons.prems(2), of "snd (pci_request_region e (2 + i) w)"] r
  show ?case by (simp add: step request_fields del: alloc_io_loop.simps)
qed

text \<open>
  C6 (as amended). For a layout with \<open>n\<close> ports, \<open>adv_alloc_io\<close> requests the regions
  \<open>2 + port\<close> for port 0, 1, ... in increasing order. When every request succeeds it has
  requested and reserved exactly the regions 2, ..., \<open>n + 1\<close> and returns 0. At the
  first request that fails, for port \<open>k\<close>, it makes no further call and returns the
  error code of that request; the regions of the ports before \<open>k\<close> stay reserved.
\<close>

theorem adv_alloc_io_requests:
  "((\<forall>i<ports (card_data c). request_res e (2 + i) = 0) \<longrightarrow>
      fst (adv_alloc_io e c w) = 0 \<and>
      calls_since w (snd (adv_alloc_io e c w)) =
        map (\<lambda>i. PciRequestRegion (2 + i) 0) [0..<ports (card_data c)] \<and>
      regions (snd (adv_alloc_io e c w)) = regions w @ map (\<lambda>i. 2 + i) [0..<ports (card_data c)]) \<and>
   (k < ports (card_data c) \<and> (\<forall>i<k. request_res e (2 + i) = 0) \<and> request_res e (2 + k) \<noteq> 0 \<longrightarrow>
      fst (adv_alloc_io e c w) = request_res e (2 + k) \<and>
      calls_since w (snd (adv_alloc_io e c w)) =
        map (\<lambda>i. PciRequestRegion (2 + i) 0) [0..<k] @
        [PciRequestRegion (2 + k) (request_res e (2 + k))] \<and>
      regions (snd (adv_alloc_io e c w)) = regions w @ map (\<lambda>i. 2 + i) [0..<k])"
proof (intro conjI impI)
  assume a: "\<forall>i<ports (card_data c). request_res e (2 + i) = 0"
  then have "\<forall>i\<in>set [0..<ports (card_data c)]. request_res e (2 + i) = 0" by simp
  note ok = alloc_io_loop_ok [OF this, of w]
  from ok show "fst (adv_alloc_io e c w) = 0"
    by (simp add: adv_alloc_io_def)
  from ok show "calls_since w (snd (adv_alloc_io e c w)) =
      map (\<lambda>i. PciRequestRegion (2 + i) 0) [0..<ports (card_data c)]"
    by (simp add: adv_alloc_io_def calls_since_def)
  from ok show "regions (snd (adv_alloc_io e c w)) =
      regions w @ map (\<lambda>i. 2 + i) [0..<ports (card_data c)]"
    by (simp add: adv_alloc_io_def)
next
  assume a: "k < ports (card_data c) \<and> (\<forall>i<k. request_res e (2 + i) = 0) \<and>
      request_res e (2 + k) \<noteq> 0"
  then have sp: "[0..<ports (card_data c)] = [0..<k] @ k # [Suc k..<ports (card_data c)]"
    by (metis upt_conv_Cons upt_add_eq_append le_add_diff_inverse less_imp_le_nat zero_le)
  from a have "\<forall>i\<in>set [0..<k]. request_res e (2 + i) = 0" by simp
  note f = alloc_io_loop_fail [OF this, of k "[Suc k..<ports (card_data c)]" w]
  from a f show "fst (adv_alloc_io e c w) = request_res e (2 + k)"
    by (simp add: adv_alloc_io_def sp)
  from a f show "calls_since w (snd (adv_alloc_io e c w)) =
      map (\<lambda>i. PciRequestRegion (2 + i) 0) [0..<k] @
      [PciRequestRegion (2 + k) (request_res e (2 + k))]"
    by (simp add: adv_alloc_io_def sp calls_since_def)
  from a f show "regions (snd (adv_alloc_io e c w)) = regions w @ map (\<lambda>i. 2 + i) [0..<k]"
    by (simp add: adv_alloc_io_def sp)
qed

section \<open>The base address of each port\<close>

lemma probe_ports_devmem_other:
  "probe_ports e pdev is w = (None, w') \<Longrightarrow> h \<notin> alloc_res e ` set is \<Longrightarrow>
     devmem w' h = devmem w h"
proof (induction "is" arbitrary: w)
  case Nil
  then show ?case by simp
next
  case (Cons i "is")
  note s = probe_ports_Cons_None [OF Cons.prems(1)]
  from Cons.prems(2) have "h \<noteq> alloc_res e i" and "h \<notin> alloc_res e ` set is" by auto
  then show ?case
    using Cons.IH [OF s(3)] port_step_fields(13) [OF s(1,2)] by simp
qed

lemma probe_ports_reg_base:
  "probe_ports e pdev is w = (None, w') \<Longrightarrow> p \<in> set is \<Longrightarrow>
     distinct (map (alloc_res e) is) \<Longrightarrow>
     priv (devmem w' (alloc_res e p)) =
       \<lparr>reg_base = can_addr (card w) + 0x400 * int p, read_reg = Some Adv_read_reg,
        write_reg = Some Adv_write_reg, irq_shared = True, clock_freq = ADV_PCI_CAN_CLOCK\<rparr>"
proof (induction "is" arbitrary: w)
  case Nil
  then show ?case by simp
next
  case (Cons i "is")
  note s = probe_ports_Cons_None [OF Cons.prems(1)]
  show ?case
  proof (cases "p \<in> set is")
    case True
    from Cons.prems(3) have "distinct (map (alloc_res e) is)" by simp
    from Cons.IH [OF s(3) True this] show ?thesis
      by (simp add: port_step_fields(8) [OF s(1,2)])
  next
    case False
    with Cons.prems(2) have pi: "p = i" by simp
    from Cons.prems(3) have "alloc_res e i \<notin> alloc_res e ` set is" by simp
    from probe_ports_devmem_other [OF s(3) this]
    show ?thesis
      using s(1,2)
      by (simp add: pi port_step_def platform_defs setup_dev_def Let_def zero_dev_def)
  qed
qed




lemma port_priv_active:
  assumes ok: "fst (adv_probe e pdev (world0 card0)) = 0"
    and sup: "device pdev \<in> set adv_pci_tbl"
    and d: "distinct (map (alloc_res e) [0..<unat (device pdev AND 0xf)])"
    and p: "p < unat (device pdev AND 0xf)"
  shows "port_priv (snd (adv_probe e pdev (world0 card0))) p =
       \<lparr>reg_base = iomap_res e 0 + 0x400 * int p, read_reg = Some Adv_read_reg,
        write_reg = Some Adv_write_reg, irq_shared = True, clock_freq = ADV_PCI_CAN_CLOCK\<rparr>"
proof -
  from sup have n: "unat (device pdev AND 0xf) \<le> 4"
    by (auto dest: adv_pci_tbl_ports)
  note a = adv_probe_active [OF ok n]
  note c = adv_probe_ok [OF ok]
  have slot: "net_dev (card (snd (adv_probe e pdev (world0 card0)))) ! p = alloc_res e p"
    using p by (simp add: a(9) nth_append)
  from probe_ports_reg_base [OF c(5) _ d, of p] p
  show ?thesis
    by (simp add: port_priv_def slot mapped_fields(8) [OF c(1-4)])
qed



lemma n_ports_odd: "1 AND pmask \<noteq> 0 \<Longrightarrow> n_ports pmask cd = ports cd"
  by (simp add: n_ports_def)






lemma mioe_distinct:
  "distinct (map (alloc_res env_ok) [0..<unat (device mioe_3680 AND 0xf)])"
  by (simp add: mioe_ports upt_2 env_ok_simps)









section \<open>The register accessors\<close>

lemma sint_4_mul:
  "reg_index_ok r \<Longrightarrow> sint (4 * r) = 4 * sint r"
proof -
  assume a: "reg_index_ok r"
  have "sint (4 * r) = signed_take_bit 31 (sint (4 :: 32 word) * sint r)"
    by (simp add: sint_word_ariths)
  also have "sint (4 :: 32 word) = 4" by simp
  also have "signed_take_bit 31 (4 * sint r) = 4 * sint r"
    using a by (intro signed_take_bit_int_eq_self) (simp_all add: reg_index_ok_def)
  finally show ?thesis .
qed

text \<open>
  C3. For every register index \<open>r\<close> in range, \<open>adv_read_reg\<close> returns the byte at
  \<open>reg_base + 4 * r\<close>, \<open>adv_write_reg\<close> stores its byte at \<open>reg_base + 4 * r\<close>, and
  reading register \<open>r\<close> after writing \<open>v\<close> to it returns \<open>v\<close>. After a successful
  attach, every port \<open>k\<close> of the card is bound to this pair of accessors, and they read
  and write the byte at the address of the mapping plus \<open>0x400 * k + 4 * r\<close>.
\<close>

theorem adv_reg_read_after_write:
  "(reg_index_ok r \<longrightarrow>
      fst (adv_read_reg p r m) = m (reg_base p + 4 * sint r) \<and>
      adv_write_reg p r v m = m(reg_base p + 4 * sint r := v) \<and>
      fst (adv_read_reg p r (adv_write_reg p r v m)) = v) \<and>
   (reg_index_ok r \<and> device pdev \<in> set adv_pci_tbl \<and>
    fst (adv_probe e pdev (world0 card0)) = 0 \<and>
    distinct (map (alloc_res e) [0..<unat (device pdev AND 0xf)]) \<and>
    k < unat (device pdev AND 0xf) \<longrightarrow>
      read_reg (port_priv (snd (adv_probe e pdev (world0 card0))) k) = Some Adv_read_reg \<and>
      write_reg (port_priv (snd (adv_probe e pdev (world0 card0))) k) = Some Adv_write_reg \<and>
      fst (adv_read_reg (port_priv (snd (adv_probe e pdev (world0 card0))) k) r m) =
        m (iomap_res e 0 + 0x400 * int k + 4 * sint r) \<and>
      adv_write_reg (port_priv (snd (adv_probe e pdev (world0 card0))) k) r v m =
        m(iomap_res e 0 + 0x400 * int k + 4 * sint r := v))"
proof (intro conjI impI; (elim conjE)?)
  assume r: "reg_index_ok r"
  show "fst (adv_read_reg p r m) = m (reg_base p + 4 * sint r)"
    "adv_write_reg p r v m = m(reg_base p + 4 * sint r := v)"
    "fst (adv_read_reg p r (adv_write_reg p r v m)) = v"
    by (simp_all add: adv_read_reg_def adv_write_reg_def readb_def writeb_def sint_4_mul [OF r])
next
  assume r: "reg_index_ok r"
    and a: "device pdev \<in> set adv_pci_tbl" "fst (adv_probe e pdev (world0 card0)) = 0"
      "distinct (map (alloc_res e) [0..<unat (device pdev AND 0xf)])"
      "k < unat (device pdev AND 0xf)"
  note pp = port_priv_active [OF a(2,1,3,4)]
  show "read_reg (port_priv (snd (adv_probe e pdev (world0 card0))) k) = Some Adv_read_reg"
    "write_reg (port_priv (snd (adv_probe e pdev (world0 card0))) k) = Some Adv_write_reg"
    "fst (adv_read_reg (port_priv (snd (adv_probe e pdev (world0 card0))) k) r m) =
        m (iomap_res e 0 + 0x400 * int k + 4 * sint r)"
    "adv_write_reg (port_priv (snd (adv_probe e pdev (world0 card0))) k) r v m =
        m(iomap_res e 0 + 0x400 * int k + 4 * sint r := v)"
    by (simp_all add: pp adv_read_reg_def adv_write_reg_def readb_def writeb_def
        sint_4_mul [OF r])
qed

theorem adv_reg_read_after_write_witness:
  "reg_index_ok 31 \<and>
   fst (adv_read_reg (port_priv (snd (adv_probe env_ok mioe_3680 (world0 card0))) 1) 31
     (adv_write_reg (port_priv (snd (adv_probe env_ok mioe_3680 (world0 card0))) 1) 31 0x47
        (\<lambda>_. 0))) = 0x47 \<and>
   adv_write_reg (port_priv (snd (adv_probe env_ok mioe_3680 (world0 card0))) 1) 31 0x47
     (\<lambda>_. 0) = (\<lambda>_. 0)(0x147c := 0x47)"
proof -
  have ok: "reg_index_ok 31" by (simp add: reg_index_ok_def)
  have h: "reg_index_ok 31 \<and> device mioe_3680 \<in> set adv_pci_tbl \<and>
      fst (adv_probe env_ok mioe_3680 (world0 card0)) = 0 \<and>
      distinct (map (alloc_res env_ok) [0..<unat (device mioe_3680 AND 0xf)]) \<and>
      1 < unat (device mioe_3680 AND 0xf)"
    using ok mioe_supported mioe_attach_ok mioe_distinct by (simp add: mioe_ports)
  note t = adv_reg_read_after_write [of 31 _ _ _ mioe_3680 env_ok 1]
  note t1 = t [THEN conjunct1, THEN mp, OF ok,
      of "port_priv (snd (adv_probe env_ok mioe_3680 (world0 card0))) 1" "\<lambda>_. 0" "0x47"]
  note t2 = t [THEN conjunct2, THEN mp, OF h, of "\<lambda>_. 0" "0x47"]
  have A: "fst (adv_read_reg (port_priv (snd (adv_probe env_ok mioe_3680 (world0 card0))) 1) 31
     (adv_write_reg (port_priv (snd (adv_probe env_ok mioe_3680 (world0 card0))) 1) 31 0x47
        (\<lambda>_. 0))) = 0x47"
    using t1 by (elim conjE)
  have "adv_write_reg (port_priv (snd (adv_probe env_ok mioe_3680 (world0 card0))) 1) 31 0x47
     (\<lambda>_. 0) = (\<lambda>_. 0)(iomap_res env_ok 0 + 0x400 * int 1 + 4 * sint (31 :: 32 word) := 0x47)"
    using t2 by (elim conjE)
  then have B: "adv_write_reg (port_priv (snd (adv_probe env_ok mioe_3680 (world0 card0))) 1) 31 0x47
     (\<lambda>_. 0) = (\<lambda>_. 0)(0x147c := 0x47)"
    by (simp add: env_ok_simps)
  from ok A B show ?thesis by (intro conjI)
qed

text \<open>
  C10. \<open>adv_write_reg\<close> changes the byte at \<open>reg_base + 4 * r\<close> and no other byte
  of the register file; \<open>adv_read_reg\<close> leaves the register file as it is.
\<close>

theorem adv_write_reg_frame:
  assumes "reg_index_ok r"
  shows "adv_write_reg p r v m (reg_base p + 4 * sint r) = v \<and>
         (\<forall>a. a \<noteq> reg_base p + 4 * sint r \<longrightarrow> adv_write_reg p r v m a = m a) \<and>
         snd (adv_read_reg p r m) = m"
  by (simp add: adv_read_reg_def adv_write_reg_def readb_def writeb_def sint_4_mul [OF assms])

theorem adv_write_reg_frame_witness:
  "reg_index_ok 6 \<and>
   adv_write_reg \<lparr>reg_base = 0x1000, read_reg = Some Adv_read_reg,
      write_reg = Some Adv_write_reg, irq_shared = True, clock_freq = 8000000\<rparr> 6 0x1c
      (\<lambda>_. 0xff) 0x1018 = 0x1c \<and>
   adv_write_reg \<lparr>reg_base = 0x1000, read_reg = Some Adv_read_reg,
      write_reg = Some Adv_write_reg, irq_shared = True, clock_freq = 8000000\<rparr> 6 0x1c
      (\<lambda>_. 0xff) 0x1019 = 0xff"
proof -
  have ok: "reg_index_ok 6" by (simp add: reg_index_ok_def)
  from adv_write_reg_frame [OF ok, of "\<lparr>reg_base = 0x1000, read_reg = Some Adv_read_reg,
      write_reg = Some Adv_write_reg, irq_shared = True, clock_freq = 8000000\<rparr>" "0x1c" "\<lambda>_. 0xff"]
    ok show ?thesis by simp
qed

section \<open>The number of ports\<close>







section \<open>Attach, then detach\<close>











section \<open>Failures during attach: what the code does\<close>


text \<open>
  C2 (the code at a failing input). In the first driver, with the two-port card 0xc302
  and a registration of the second network device (handle 8) that fails with \<open>-5\<close>,
  \<open>adv_probe\<close> frees the handle and jumps to \<open>failure_cleanup\<close>; the slot
  \<open>net_dev[1]\<close> still holds the handle, so \<open>adv_remove\<close> unregisters it, although it was
  never registered, and frees it a second time.
\<close>

theorem probe_register_failure_double_free:
  "fst (adv_probe env_reg_fail mioe_3680 (world0 card0)) = - 5 \<and>
   calls (snd (adv_probe env_reg_fail mioe_3680 (world0 card0))) =
     [PciEnableDevice 0, Kzalloc True, PciSetDrvdata, PciRequestRegion 0 0,
      PciIomap 0 0x1000, AllocDev 7, RegisterDev 7 0, AllocDev 8, RegisterDev 8 (- 5),
      FreeDev 8, UnregisterDev 7, FreeDev 7, UnregisterDev 8, FreeDev 8,
      PciDisableMsi, PciIounmap 0x1000, PciDisableDevice, PciReleaseRegion 0, Kfree] \<and>
   faults (snd (adv_probe env_reg_fail mioe_3680 (world0 card0))) =
     [UnregisterNotRegistered 8, FreeNotAllocated 8]"
  using c2_eval by simp

section \<open>Port-mapped acquisition at concrete inputs\<close>

lemma upt_4: "[0..<4] = [0, 1, 2, 3]"
  by (simp add: upt_conv_Cons)

theorem adv_alloc_io_requests_witness:
  "fst (adv_alloc_io env_ok four_port_io (world0 card2_0)) = 0 \<and>
   calls_since (world0 card2_0) (snd (adv_alloc_io env_ok four_port_io (world0 card2_0))) =
     [PciRequestRegion 2 0, PciRequestRegion 3 0, PciRequestRegion 4 0, PciRequestRegion 5 0] \<and>
   regions (snd (adv_alloc_io env_ok four_port_io (world0 card2_0))) = [2, 3, 4, 5] \<and>
   fst (adv_alloc_io env_busy pci_1680_card (world0 card2_0)) = - 16 \<and>
   calls_since (world0 card2_0) (snd (adv_alloc_io env_busy pci_1680_card (world0 card2_0))) =
     [PciRequestRegion 2 0, PciRequestRegion 3 (- 16)]"
proof -
  have h1: "\<forall>i<ports (card_data four_port_io). request_res env_ok (2 + i) = 0"
    by (simp add: env_ok_simps)
  have h2: "1 < ports (card_data pci_1680_card) \<and>
      (\<forall>i<1. request_res env_busy (2 + i) = 0) \<and> request_res env_busy (2 + 1) \<noteq> 0"
    by (simp add: pci_1680_card_def card2_0_def env_busy_def env_ok_def)
  from adv_alloc_io_requests [where c = four_port_io and e = env_ok and w = "world0 card2_0",
      THEN conjunct1, THEN mp, OF h1]
    adv_alloc_io_requests [where c = pci_1680_card and e = env_busy and k = 1 and
      w = "world0 card2_0", THEN conjunct2, THEN mp, OF h2]
  show ?thesis
    by (simp add: four_port_io_def card2_0_def upt_4 world0_fields env_busy_def env_ok_def)
qed

theorem adv_alloc_io_counterexample:
  "fst (adv_alloc_io env_busy pci_1680_card (world0 card2_0)) = - 16 \<and>
   regions (snd (adv_alloc_io env_busy pci_1680_card (world0 card2_0))) = [2] \<and>
   calls (snd (adv_alloc_io env_busy pci_1680_card (world0 card2_0))) =
     [PciRequestRegion 2 0, PciRequestRegion 3 (- 16)]"
  by (simp add: adv_alloc_io_def pci_1680_card_def card2_0_def upt_2 alloc_io_loop_Cons
      request_fields env_busy_def env_ok_def world0_fields del: alloc_io_loop.simps)

end
